theory Spec2Isabelle
  imports Main "HOL-Library.Sublist"
begin

section \<open>FlaskForge: a shallow embedding of the project generator\<close>

text \<open>
  The development follows \<^verbatim>\<open>src/flaskforge.py\<close>, the variant of the generator that has
  the dependency-installation stage and the \<^verbatim>\<open>try\<close>/\<^verbatim>\<open>except\<close> guards;
  the stages in which the older variant \<^verbatim>\<open>src/fforge.py\<close> differs are embedded beside it.

  Strings are \<^typ>\<open>string\<close>; a character of the model is a code point below 256, and text
  with other code points is outside the model. White space is that of \<^verbatim>\<open>str.isspace\<close> on
  these code points. The case mappings of the Unicode database, and the path functions of
  \<^verbatim>\<open>ntpath\<close> that \<^verbatim>\<open>os.path\<close> stands for on a Windows host, are not part of the
  repository: the world supplies them. On every other host \<^verbatim>\<open>os.path\<close> is \<^verbatim>\<open>posixpath\<close>,
  which is modelled.

  Everything the generator does to the outside world is an \<^emph>\<open>event\<close> appended to a trace:
  a directory creation, the opening of a file, the start of a child process, a call of the
  logger, and the entry into a stage of \<^verbatim>\<open>run\<close>. What the outside world answers (whether
  the operating system refuses an operation, with which status a child process exits, what
  the template tree contains, what Jinja2 renders) is not decided by the generator; it is
  given by a \<^emph>\<open>world\<close>, a record of functions that may depend on the whole history.
  Theorems quantify over every world unless they say otherwise.
\<close>

subsection \<open>Strings\<close>

definition is_space :: "char \<Rightarrow> bool" where
  \<comment> \<open>\<^verbatim>\<open>str.isspace\<close> below 256: TAB, LF, VT, FF, CR, FS, GS, RS, US, the space, NEL (U+0085)
      and the no-break space (U+00A0).\<close>
  "is_space c = (c = CHR 0x09 \<or> c = CHR 0x0A \<or> c = CHR 0x0B \<or> c = CHR 0x0C \<or> c = CHR 0x0D
     \<or> c = CHR 0x1C \<or> c = CHR 0x1D \<or> c = CHR 0x1E \<or> c = CHR 0x1F \<or> c = CHR 0x20
     \<or> c = CHR 0x85 \<or> c = CHR 0xA0)"

definition strip :: "string \<Rightarrow> string" where
  \<comment> \<open>\<^verbatim>\<open>s.strip()\<close>\<close>
  "strip s = rev (dropWhile is_space (rev (dropWhile is_space s)))"

fun split :: "char \<Rightarrow> string \<Rightarrow> string list" where
  \<comment> \<open>\<^verbatim>\<open>s.split(c)\<close> for a one-character separator: one more segment than separators.\<close>
  "split c [] = [[]]"
| "split c (x # xs) =
     (if x = c then [] # split c xs
      else (case split c xs of [] \<Rightarrow> [[x]] | seg # segs \<Rightarrow> (x # seg) # segs))"

fun str_join :: "string \<Rightarrow> string list \<Rightarrow> string" where
  \<comment> \<open>\<^verbatim>\<open>sep.join(xs)\<close>\<close>
  "str_join sep [] = []"
| "str_join sep [x] = x"
| "str_join sep (x # y # ys) = x @ sep @ str_join sep (y # ys)"

fun capitalize :: "(char \<Rightarrow> string) \<Rightarrow> (char \<Rightarrow> string) \<Rightarrow> string \<Rightarrow> string" where
  \<comment> \<open>\<^verbatim>\<open>s.capitalize()\<close>, given the title-case and the lower-case mapping of a character: the
      first character title-cased, all the others lower-cased.\<close>
  "capitalize title lower [] = []"
| "capitalize title lower (c # cs) = title c @ concat (map lower cs)"

definition is_cased :: "(char \<Rightarrow> string) \<Rightarrow> (char \<Rightarrow> string) \<Rightarrow> char \<Rightarrow> bool" where
  "is_cased title lower c = (title c \<noteq> [c] \<or> lower c \<noteq> [c])"

fun title_from :: "(char \<Rightarrow> string) \<Rightarrow> (char \<Rightarrow> string) \<Rightarrow> bool \<Rightarrow> string \<Rightarrow> string" where
  "title_from title lower prev [] = []"
| "title_from title lower prev (c # cs) =
     (if prev then lower c else title c) @ title_from title lower (is_cased title lower c) cs"

definition title_case :: "(char \<Rightarrow> string) \<Rightarrow> (char \<Rightarrow> string) \<Rightarrow> string \<Rightarrow> string" where
  \<comment> \<open>Title case as the specification words it: every word starts in title case and
      continues in lower case, a word being a maximal run of characters that have a case.
      It is not what the source calls.\<close>
  "title_case title lower s = title_from title lower False s"

subsection \<open>Paths\<close>

definition join2 :: "string \<Rightarrow> string \<Rightarrow> string" where
  \<comment> \<open>One step of the loop of \<^verbatim>\<open>posixpath.join\<close>.\<close>
  "join2 path b =
     (if b \<noteq> [] \<and> hd b = CHR ''/'' then b
      else if path = [] \<or> last path = CHR ''/'' then path @ b
      else path @ ''/'' @ b)"

definition posixpath_join :: "string \<Rightarrow> string list \<Rightarrow> string" where
  \<comment> \<open>\<^verbatim>\<open>posixpath.join(a, *p)\<close>\<close>
  "posixpath_join a p = foldl join2 a p"

definition posixpath_dirname :: "string \<Rightarrow> string" where
  \<comment> \<open>\<^verbatim>\<open>posixpath.dirname\<close>: everything up to the last slash, trailing slashes removed
      unless the head consists of slashes only.\<close>
  "posixpath_dirname p =
     (let head = rev (dropWhile (\<lambda>c. c \<noteq> CHR ''/'') (rev p))
      in if head \<noteq> [] \<and> \<not> list_all (\<lambda>c. c = CHR ''/'') head
         then rev (dropWhile (\<lambda>c. c = CHR ''/'') (rev head)) else head)"

subsection \<open>Events, errors and the outside world\<close>

datatype py_error = OSError | CalledProcessError | AttributeError | TypeError | TemplateError

datatype level = CRITICAL | ERROR | WARNING | INFO | DEBUG

datatype stage =
    Create_directories | Create_virtualenv | Install_dependencies | Create_base_files
  | Create_blueprints | Create_init_py | Create_models_py | Create_docker_files
  | Create_ci_cd_files | Initialize_database | Run_post_gen_hooks

datatype popen_args = ArgList "string list" | ArgStr string

datatype event =
    Enter stage   \<comment> \<open>\<^verbatim>\<open>run\<close> calls the method of this stage\<close>
  | Makedirs string   \<comment> \<open>\<^verbatim>\<open>os.makedirs(path, exist_ok=True)\<close>\<close>
  | OpenR string   \<comment> \<open>\<^verbatim>\<open>open(path, 'r')\<close>\<close>
  | OpenW string   \<comment> \<open>\<^verbatim>\<open>open(path, 'w')\<close>\<close>
  | Popen popen_args bool "string option"
      \<comment> \<open>\<^verbatim>\<open>subprocess.run(args, shell=..., cwd=...)\<close> starts a child process\<close>
  | Log level string "py_error option"
      \<comment> \<open>a call of the logger: the literal text of the message and the exception
          interpolated at its end, if any\<close>

datatype proc_result = Exited int | Not_started

record world =
  getcwd :: string   \<comment> \<open>\<^verbatim>\<open>os.getcwd()\<close>\<close>
  module_dir :: string   \<comment> \<open>\<^verbatim>\<open>os.path.dirname(__file__)\<close>\<close>
  platform_system :: string   \<comment> \<open>\<^verbatim>\<open>platform.system()\<close>\<close>
  os_refuses :: "event list \<Rightarrow> event \<Rightarrow> bool"
    \<comment> \<open>after this history, the operating system refuses this file operation\<close>
  popen :: "event list \<Rightarrow> popen_args \<Rightarrow> bool \<Rightarrow> string option \<Rightarrow> proc_result"
    \<comment> \<open>after this history, what becomes of this child process\<close>
  os_walk :: "string \<Rightarrow> (string \<times> string list \<times> string list) list"
    \<comment> \<open>the triples \<^verbatim>\<open>os.walk(top)\<close> yields; nothing for a directory that cannot be listed\<close>
  relpath :: "string \<Rightarrow> string \<Rightarrow> string"   \<comment> \<open>\<^verbatim>\<open>os.path.relpath(path, start)\<close>\<close>
  jinja_render :: "string \<Rightarrow> string \<Rightarrow> py_error + string"
    \<comment> \<open>\<^verbatim>\<open>Template(text).render(project_name=name)\<close>\<close>
  ntpath_join :: "string \<Rightarrow> string list \<Rightarrow> string"   \<comment> \<open>\<^verbatim>\<open>ntpath.join(a, *p)\<close>\<close>
  ntpath_dirname :: "string \<Rightarrow> string"   \<comment> \<open>\<^verbatim>\<open>ntpath.dirname(p)\<close>\<close>
  totitle :: "char \<Rightarrow> string"   \<comment> \<open>the title-case mapping of a character\<close>
  tolower :: "char \<Rightarrow> string"   \<comment> \<open>the lower-case mapping of a character\<close>

definition os_path_join :: "world \<Rightarrow> string \<Rightarrow> string list \<Rightarrow> string" where
  \<comment> \<open>\<^verbatim>\<open>os.path.join(a, *p)\<close>: \<^verbatim>\<open>ntpath\<close> on a Windows host, \<^verbatim>\<open>posixpath\<close> elsewhere\<close>
  "os_path_join w a p =
     (if platform_system w = ''Windows'' then ntpath_join w a p else posixpath_join a p)"

definition os_path_dirname :: "world \<Rightarrow> string \<Rightarrow> string" where
  \<comment> \<open>\<^verbatim>\<open>os.path.dirname(p)\<close>\<close>
  "os_path_dirname w p =
     (if platform_system w = ''Windows'' then ntpath_dirname w p else posixpath_dirname p)"

record state =
  activate_command :: "string option"   \<comment> \<open>the attribute, absent until it is assigned\<close>
  trace :: "event list"
  files :: "string \<rightharpoonup> string"   \<comment> \<open>the text files the generator reads and writes\<close>

type_synonym 'a prog = "state \<Rightarrow> (py_error + 'a) \<times> state"

definition ret :: "'a \<Rightarrow> 'a prog" where
  "ret x = (\<lambda>s. (Inr x, s))"

definition bind :: "'a prog \<Rightarrow> ('a \<Rightarrow> 'b prog) \<Rightarrow> 'b prog" where
  "bind m k = (\<lambda>s. case m s of (Inl e, s') \<Rightarrow> (Inl e, s') | (Inr x, s') \<Rightarrow> k x s')"

primrec seq :: "unit prog list \<Rightarrow> unit prog" where
  \<comment> \<open>statements one after the other; an exception ends the sequence\<close>
  "seq [] = ret ()"
| "seq (m # ms) = bind m (\<lambda>_. seq ms)"

definition for_each :: "'a list \<Rightarrow> ('a \<Rightarrow> unit prog) \<Rightarrow> unit prog" where
  "for_each xs body = seq (map body xs)"

definition try_except :: "unit prog \<Rightarrow> py_error \<Rightarrow> (py_error \<Rightarrow> unit prog) \<Rightarrow> unit prog" where
  \<comment> \<open>\<^verbatim>\<open>try: m except cls as e: handler(e)\<close>; any other exception passes through\<close>
  "try_except m cls handler =
     (\<lambda>s. case m s of
        (Inl e, s') \<Rightarrow> if e = cls then handler e s' else (Inl e, s')
      | (Inr x, s') \<Rightarrow> (Inr x, s'))"

definition emit :: "event \<Rightarrow> unit prog" where
  "emit ev = (\<lambda>s. (Inr (), s\<lparr>trace := trace s @ [ev]\<rparr>))"

definition logger_info :: "string \<Rightarrow> unit prog" where
  "logger_info msg = emit (Log INFO msg None)"

definition logger_error :: "string \<Rightarrow> py_error \<Rightarrow> unit prog" where
  "logger_error msg e = emit (Log ERROR msg (Some e))"

definition os_makedirs :: "world \<Rightarrow> string \<Rightarrow> unit prog" where
  "os_makedirs w p =
     (\<lambda>s. let s' = s\<lparr>trace := trace s @ [Makedirs p]\<rparr>
          in if os_refuses w (trace s) (Makedirs p) then (Inl OSError, s') else (Inr (), s'))"

definition open_r :: "world \<Rightarrow> string \<Rightarrow> unit prog" where
  "open_r w p =
     (\<lambda>s. let s' = s\<lparr>trace := trace s @ [OpenR p]\<rparr>
          in if os_refuses w (trace s) (OpenR p) \<or> files s p = None
             then (Inl OSError, s') else (Inr (), s'))"

definition open_w :: "world \<Rightarrow> string \<Rightarrow> unit prog" where
  \<comment> \<open>opening for writing creates the file or truncates it\<close>
  "open_w w p =
     (\<lambda>s. let s' = s\<lparr>trace := trace s @ [OpenW p]\<rparr>
          in if os_refuses w (trace s) (OpenW p) then (Inl OSError, s')
             else (Inr (), s'\<lparr>files := (files s)(p \<mapsto> [])\<rparr>))"

definition f_read :: "string \<Rightarrow> string prog" where
  "f_read p = (\<lambda>s. (Inr (case files s p of None \<Rightarrow> [] | Some t \<Rightarrow> t), s))"

definition f_write :: "string \<Rightarrow> string \<Rightarrow> unit prog" where
  "f_write p t =
     (\<lambda>s. (Inr (), s\<lparr>files := (files s)(p \<mapsto> (case files s p of None \<Rightarrow> [] | Some t0 \<Rightarrow> t0) @ t)\<rparr>))"

definition write_file :: "world \<Rightarrow> string \<Rightarrow> string \<Rightarrow> unit prog" where
  \<comment> \<open>\<^verbatim>\<open>with open(p, 'w') as f: f.write(t)\<close>\<close>
  "write_file w p t = bind (open_w w p) (\<lambda>_. f_write p t)"

definition subprocess_run ::
  "world \<Rightarrow> popen_args \<Rightarrow> bool \<Rightarrow> bool \<Rightarrow> string option \<Rightarrow> unit prog" where
  \<comment> \<open>\<^verbatim>\<open>subprocess.run(args, shell=shell, check=check, cwd=cwd)\<close>\<close>
  "subprocess_run w args shell check cwd =
     (\<lambda>s. let s' = s\<lparr>trace := trace s @ [Popen args shell cwd]\<rparr>
          in case popen w (trace s) args shell cwd of
               Not_started \<Rightarrow> (Inl OSError, s')
             | Exited rc \<Rightarrow> if check \<and> rc \<noteq> 0 then (Inl CalledProcessError, s') else (Inr (), s'))"

definition get_activate_command :: "string prog" where
  \<comment> \<open>reading \<^verbatim>\<open>self.activate_command\<close>\<close>
  "get_activate_command =
     (\<lambda>s. case activate_command s of None \<Rightarrow> (Inl AttributeError, s) | Some a \<Rightarrow> (Inr a, s))"

definition set_activate_command :: "string \<Rightarrow> unit prog" where
  "set_activate_command a = (\<lambda>s. (Inr (), s\<lparr>activate_command := Some a\<rparr>))"

subsection \<open>The generator object\<close>

record config =
  cfg_project_name :: string
  cfg_blueprints :: "string list"
  cfg_dependencies :: "string list"
  cfg_verbosity :: int
  cfg_template :: string
  cfg_config_path :: string
  cfg_post_gen_hooks :: string
  cfg_venv_dir :: "string option"   \<comment> \<open>\<^verbatim>\<open>None\<close> when the option is not given\<close>

record forge =
  project_name :: string
  blueprints :: "string list"
  dependencies :: "string list"
  verbosity :: int
  template :: string
  config_path :: string
  post_gen_hooks :: string
  project_path :: string
  venv_dir :: string
  logger_level :: level

definition log_levels :: "int \<rightharpoonup> level" where
  "log_levels = [0 \<mapsto> CRITICAL, 1 \<mapsto> ERROR, 2 \<mapsto> WARNING, 3 \<mapsto> INFO, 4 \<mapsto> DEBUG]"

definition setup_logging :: "int \<Rightarrow> level" where
  \<comment> \<open>\<^verbatim>\<open>log_levels.get(self.verbosity, logging.INFO)\<close>, the level given to \<^verbatim>\<open>basicConfig\<close>\<close>
  "setup_logging v = (case log_levels v of None \<Rightarrow> INFO | Some l \<Rightarrow> l)"

definition choose_venv_dir :: "world \<Rightarrow> string \<Rightarrow> string option \<Rightarrow> py_error + string" where
  \<comment> \<open>\<^verbatim>\<open>os.path.join(project_path, '.fforge') or os.path.join(project_path, venv_dir)\<close>:
      the right operand is evaluated only when the left one is the empty string, and
      joining a path with \<^verbatim>\<open>None\<close> raises.\<close>
  "choose_venv_dir w pp vd =
     (let fixed = os_path_join w pp [''.fforge'']
      in if fixed \<noteq> [] then Inr fixed
         else (case vd of None \<Rightarrow> Inl TypeError | Some d \<Rightarrow> Inr (os_path_join w pp [d])))"

definition FlaskForge_init :: "world \<Rightarrow> config \<Rightarrow> py_error + forge" where
  \<comment> \<open>\<^verbatim>\<open>FlaskForge.__init__\<close>\<close>
  "FlaskForge_init w c =
     (let pp = os_path_join w (getcwd w) [cfg_project_name c]
      in case choose_venv_dir w pp (cfg_venv_dir c) of
           Inl e \<Rightarrow> Inl e
         | Inr vdir \<Rightarrow>
             Inr \<lparr>project_name = cfg_project_name c, blueprints = cfg_blueprints c,
                  dependencies = cfg_dependencies c, verbosity = cfg_verbosity c,
                  template = cfg_template c, config_path = cfg_config_path c,
                  post_gen_hooks = cfg_post_gen_hooks c, project_path = pp,
                  venv_dir = vdir, logger_level = setup_logging (cfg_verbosity c)\<rparr>)"

subsection \<open>The stages\<close>

definition create_directories :: "world \<Rightarrow> forge \<Rightarrow> unit prog" where
  "create_directories w f =
     try_except
       (seq [os_makedirs w (project_path f),
             os_makedirs w (os_path_join w (project_path f) [project_name f]),
             os_makedirs w (os_path_join w (project_path f) [project_name f, ''templates'']),
             os_makedirs w (os_path_join w (project_path f) [project_name f, ''static'']),
             logger_info (''Directories created for project '' @ project_name f)])
       OSError (logger_error ''Error creating directories: '')"

definition activate_path :: "world \<Rightarrow> forge \<Rightarrow> string" where
  \<comment> \<open>the value assigned to \<^verbatim>\<open>self.activate_command\<close>\<close>
  "activate_path w f =
     (if platform_system w = ''Windows'' then os_path_join w (venv_dir f) [''Scripts'', ''activate'']
      else ''source '' @ os_path_join w (venv_dir f) [''bin'', ''activate''])"

definition create_virtualenv :: "world \<Rightarrow> forge \<Rightarrow> unit prog" where
  "create_virtualenv w f =
     try_except
       (seq [subprocess_run w (ArgList [''python'', ''-m'', ''venv'', venv_dir f]) False True None,
             logger_info ''Virtual environment created'',
             set_activate_command (activate_path w f)])
       CalledProcessError (logger_error ''Error creating virtual environment: '')"

definition install_dependencies :: "world \<Rightarrow> forge \<Rightarrow> unit prog" where
  "install_dependencies w f =
     (if dependencies f \<noteq> [] then
        try_except
          (seq [bind get_activate_command (\<lambda>a.
                  subprocess_run w
                    (ArgList [a @ '' && pip install '' @ str_join '' '' (dependencies f)])
                    True True None),
                logger_info ''Dependencies installed''])
          CalledProcessError (logger_error ''Error installing dependencies: '')
      else ret ())"

definition template_path :: "world \<Rightarrow> forge \<Rightarrow> string" where
  "template_path w f = os_path_join w (module_dir w) [''templates'', template f]"

definition render_file :: "world \<Rightarrow> forge \<Rightarrow> string \<Rightarrow> string \<Rightarrow> unit prog" where
  \<comment> \<open>the body of the inner loop of \<^verbatim>\<open>create_base_files\<close>: the destination is opened, and
      so truncated, before the source is read\<close>
  "render_file w f root file =
     (let src = os_path_join w root [file];
          relative_path = relpath w src (template_path w f);
          dest_path = os_path_join w (project_path f) [relative_path]
      in seq [os_makedirs w (os_path_dirname w dest_path),
              open_r w src,
              open_w w dest_path,
              bind (f_read src) (\<lambda>text.
                bind (\<lambda>s. (jinja_render w text (project_name f), s)) (\<lambda>out.
                  f_write dest_path out))])"

definition create_base_files :: "world \<Rightarrow> forge \<Rightarrow> unit prog" where
  "create_base_files w f =
     seq [for_each (os_walk w (template_path w f)) (\<lambda>(root, dirs, fs).
            for_each fs (render_file w f root)),
          logger_info ''Base files created from template'']"

definition routes_py :: "string \<Rightarrow> string" where
  "routes_py bp =
     ''from flask import Blueprint, render_template\<newline>'' @
     bp @ '' = Blueprint('' @ [CHR 0x27] @ bp @ [CHR 0x27] @
     '', __name__, template_folder='templates', static_folder='static')\<newline>'' @
     ''\<newline>'' @
     ''@'' @ bp @ ''.route('/'' @ bp @ ''_home')\<newline>'' @
     ''def '' @ bp @ ''_home():\<newline>'' @
     ''    return render_template('' @ [CHR 0x27] @ bp @ ''/'' @ bp @ ''_home.html')\<newline>''"

definition init_py :: "string \<Rightarrow> string" where
  "init_py bp = ''from .routes import '' @ bp"

definition forms_py :: string where
  "forms_py =
     ''from flask_wtf import FlaskForm\<newline>'' @
     ''from wtforms import StringField, PasswordField, SubmitField\<newline>'' @
     ''from wtforms.validators import DataRequired\<newline>''"

definition home_html :: "world \<Rightarrow> string \<Rightarrow> string" where
  "home_html w bp =
     ''{% extends \"base.html\" %}\<newline>'' @
     ''{% block content %}\<newline>'' @
     ''<h1>Welcome to the '' @ capitalize (totitle w) (tolower w) bp @ '' Home Page</h1>\<newline>'' @
     ''{% endblock %}\<newline>''"

definition create_blueprint_files :: "world \<Rightarrow> string \<Rightarrow> string \<Rightarrow> unit prog" where
  "create_blueprint_files w bp bp_dir =
     seq [write_file w (os_path_join w bp_dir [''routes.py'']) (routes_py bp),
          write_file w (os_path_join w bp_dir [''__init__.py'']) (init_py bp),
          write_file w (os_path_join w bp_dir [''forms.py'']) forms_py,
          write_file w (os_path_join w bp_dir [''templates'', bp @ ''_home.html'']) (home_html w bp)]"

definition create_blueprint :: "world \<Rightarrow> forge \<Rightarrow> string \<Rightarrow> unit prog" where
  \<comment> \<open>the body of the loop of \<^verbatim>\<open>create_blueprints\<close>, for one entry of the list\<close>
  "create_blueprint w f entry =
     (let bp = strip entry
      in if bp \<noteq> [] then
           (let bp_dir = os_path_join w (project_path f) [project_name f, bp]
            in seq [os_makedirs w bp_dir,
                    os_makedirs w (os_path_join w bp_dir [''templates'']),
                    os_makedirs w (os_path_join w bp_dir [''static'']),
                    create_blueprint_files w bp bp_dir])
         else ret ())"

definition create_blueprints :: "world \<Rightarrow> forge \<Rightarrow> unit prog" where
  "create_blueprints w f =
     seq [for_each (blueprints f) (create_blueprint w f),
          logger_info ''Blueprints created'']"

definition app_init_py :: string where
  "app_init_py =
     ''from flask import Flask\<newline>'' @
     ''from flask_sqlalchemy import SQLAlchemy\<newline>'' @
     ''from flask_migrate import Migrate\<newline>'' @
     ''\<newline>'' @
     ''db = SQLAlchemy()\<newline>'' @
     ''migrate = Migrate()\<newline>'' @
     ''\<newline>'' @
     ''def create_app():\<newline>'' @
     ''    app = Flask(__name__)\<newline>'' @
     ''    app.config.from_pyfile('config.py')\<newline>'' @
     ''\<newline>'' @
     ''    db.init_app(app)\<newline>'' @
     ''    migrate.init_app(app, db)\<newline>'' @
     ''\<newline>'' @
     ''    from . import routes\<newline>'' @
     ''    app.register_blueprint(routes.main_bp)\<newline>'' @
     ''\<newline>'' @
     ''    return app\<newline>''"

definition create_init_py :: "world \<Rightarrow> forge \<Rightarrow> unit prog" where
  "create_init_py w f =
     seq [write_file w (os_path_join w (project_path f) [project_name f, ''__init__.py'']) app_init_py,
          logger_info ''Created __init__.py for Flask app'']"

definition models_py :: string where
  "models_py =
     ''from . import db\<newline>'' @
     ''\<newline>'' @
     ''class User(db.Model):\<newline>'' @
     ''    id = db.Column(db.Integer, primary_key=True)\<newline>'' @
     ''    username = db.Column(db.String(64), index=True, unique=True)\<newline>'' @
     ''    email = db.Column(db.String(120), index=True, unique=True)\<newline>'' @
     ''    password_hash = db.Column(db.String(128))\<newline>'' @
     ''\<newline>'' @
     ''    def __repr__(self):\<newline>'' @
     ''        return f'<User {self.username}>'\<newline>''"

definition create_models_py :: "world \<Rightarrow> forge \<Rightarrow> unit prog" where
  "create_models_py w f =
     seq [write_file w (os_path_join w (project_path f) [project_name f, ''models.py'']) models_py,
          logger_info ''Created models.py'']"

definition dockerfile :: string where
  "dockerfile =
     ''FROM python:3.8-slim-buster\<newline>'' @
     ''WORKDIR /app\<newline>'' @
     ''COPY requirements.txt requirements.txt\<newline>'' @
     ''RUN pip install -r requirements.txt\<newline>'' @
     ''COPY . .\<newline>'' @
     ''CMD [\"flask\", \"run\", \"--host=0.0.0.0\"]\<newline>''"

definition docker_compose_yml :: string where
  "docker_compose_yml =
     ''version: '3'\<newline>'' @
     ''services:\<newline>'' @
     ''  web:\<newline>'' @
     ''    build: .\<newline>'' @
     ''    ports:\<newline>'' @
     ''      - \"5000:5000\"\<newline>'' @
     ''    volumes:\<newline>'' @
     ''      - .:/app\<newline>'' @
     ''    environment:\<newline>'' @
     ''      FLASK_ENV: development\<newline>'' @
     ''      FLASK_APP: main.py\<newline>''"

definition create_docker_files :: "world \<Rightarrow> forge \<Rightarrow> unit prog" where
  "create_docker_files w f =
     seq [write_file w (os_path_join w (project_path f) [''Dockerfile'']) dockerfile,
          write_file w (os_path_join w (project_path f) [''docker-compose.yml'']) docker_compose_yml,
          logger_info ''Created Docker files'']"

definition python_app_yml :: string where
  "python_app_yml =
     ''name: Python application\<newline>'' @
     ''\<newline>'' @
     ''on:\<newline>'' @
     ''  push:\<newline>'' @
     ''    branches: [ main ]\<newline>'' @
     ''  pull_request:\<newline>'' @
     ''    branches: [ main ]\<newline>'' @
     ''\<newline>'' @
     ''jobs:\<newline>'' @
     ''  build:\<newline>'' @
     ''    runs-on: ubuntu-latest\<newline>'' @
     ''    strategy:\<newline>'' @
     ''      matrix:\<newline>'' @
     ''        python-version: [3.6, 3.7, 3.8, 3.9]\<newline>'' @
     ''\<newline>'' @
     ''    steps:\<newline>'' @
     ''    - uses: actions/checkout@v2\<newline>'' @
     ''    - name: Set up Python\<newline>'' @
     ''      uses: actions/setup-python@v2\<newline>'' @
     ''      with:\<newline>'' @
     ''        python-version: ${{ matrix.python-version }}\<newline>'' @
     ''    - name: Install dependencies\<newline>'' @
     ''      run: |\<newline>'' @
     ''        python -m pip install --upgrade pip\<newline>'' @
     ''        pip install -r requirements.txt\<newline>'' @
     ''    - name: Test with pytest\<newline>'' @
     ''      run: |\<newline>'' @
     ''        pytest\<newline>''"

definition create_ci_cd_files :: "world \<Rightarrow> forge \<Rightarrow> unit prog" where
  "create_ci_cd_files w f =
     (let github_dir = os_path_join w (project_path f) [''.github'', ''workflows'']
      in seq [os_makedirs w github_dir,
              write_file w (os_path_join w github_dir [''python-app.yml'']) python_app_yml,
              logger_info ''Created CI/CD files''])"

definition flask_db :: "world \<Rightarrow> forge \<Rightarrow> bool \<Rightarrow> string \<Rightarrow> unit prog" where
  \<comment> \<open>one statement of \<^verbatim>\<open>initialize_database\<close>:
      \<^verbatim>\<open>subprocess.run([self.activate_command + ' && flask db ...'], shell=True, check=...,
      cwd=self.project_path)\<close>\<close>
  "flask_db w f check sub =
     bind get_activate_command (\<lambda>a.
       subprocess_run w (ArgList [a @ '' && flask db '' @ sub]) True check (Some (project_path f)))"

definition initialize_database :: "world \<Rightarrow> forge \<Rightarrow> unit prog" where
  "initialize_database w f =
     try_except
       (seq [flask_db w f True ''init'',
             flask_db w f True ''migrate'',
             flask_db w f True ''upgrade'',
             logger_info ''Initialized database''])
       CalledProcessError (logger_error ''Error initializing database: '')"

definition hook_command :: "string \<Rightarrow> string \<Rightarrow> string" where
  \<comment> \<open>\<^verbatim>\<open>self.activate_command + ' && ' + hook.strip()\<close>\<close>
  "hook_command a hook = a @ '' && '' @ strip hook"

definition run_hook :: "world \<Rightarrow> forge \<Rightarrow> string \<Rightarrow> unit prog" where
  \<comment> \<open>the body of the loop of \<^verbatim>\<open>run_post_gen_hooks\<close>\<close>
  "run_hook w f hook =
     try_except
       (bind get_activate_command (\<lambda>a.
          subprocess_run w (ArgStr (hook_command a hook)) True True (Some (project_path f))))
       CalledProcessError
       (logger_error (''Error running post-generation hook '' @ [CHR 0x27] @ hook @ [CHR 0x27] @ '': ''))"

definition run_post_gen_hooks :: "world \<Rightarrow> forge \<Rightarrow> unit prog" where
  "run_post_gen_hooks w f =
     (if post_gen_hooks f \<noteq> [] then
        seq [for_each (split CHR '','' (post_gen_hooks f)) (run_hook w f),
             logger_info ''Post-generation hooks executed'']
      else ret ())"

subsection \<open>The pipeline\<close>

definition call :: "stage \<Rightarrow> unit prog \<Rightarrow> unit prog" where
  \<comment> \<open>a method call of \<^verbatim>\<open>run\<close>, recorded in the trace\<close>
  "call st m = bind (emit (Enter st)) (\<lambda>_. m)"

definition stages :: "world \<Rightarrow> forge \<Rightarrow> (stage \<times> unit prog) list" where
  "stages w f =
     [(Create_directories, create_directories w f),
      (Create_virtualenv, create_virtualenv w f),
      (Install_dependencies, install_dependencies w f),
      (Create_base_files, create_base_files w f),
      (Create_blueprints, create_blueprints w f),
      (Create_init_py, create_init_py w f),
      (Create_models_py, create_models_py w f),
      (Create_docker_files, create_docker_files w f),
      (Create_ci_cd_files, create_ci_cd_files w f),
      (Initialize_database, initialize_database w f),
      (Run_post_gen_hooks, run_post_gen_hooks w f)]"

definition success_message :: "forge \<Rightarrow> string" where
  "success_message f = ''Flask project '' @ project_name f @ '' created successfully''"

definition pipeline :: "(stage \<times> unit prog) list \<Rightarrow> unit prog" where
  \<comment> \<open>the method calls one after the other\<close>
  "pipeline ps = seq (map (\<lambda>(st, m). call st m) ps)"

definition run :: "world \<Rightarrow> forge \<Rightarrow> unit prog" where
  \<comment> \<open>\<^verbatim>\<open>FlaskForge.run\<close>\<close>
  "run w f = bind (pipeline (stages w f)) (\<lambda>_. logger_info (success_message f))"

record args =
  arg_project_name :: string
  arg_blueprints :: string
  arg_dependencies :: string
  arg_verbosity :: int
  arg_template :: string
  arg_config :: string
  arg_post_gen_hooks :: string
  arg_venv_dir :: "string option"

definition config_of :: "args \<Rightarrow> config" where
  \<comment> \<open>the dictionary \<^verbatim>\<open>main\<close> builds from the parsed arguments\<close>
  "config_of a =
     \<lparr>cfg_project_name = arg_project_name a,
      cfg_blueprints = (if arg_blueprints a \<noteq> [] then split CHR '','' (arg_blueprints a) else []),
      cfg_dependencies = (if arg_dependencies a \<noteq> [] then split CHR '','' (arg_dependencies a) else []),
      cfg_verbosity = arg_verbosity a,
      cfg_template = arg_template a,
      cfg_config_path = arg_config a,
      cfg_post_gen_hooks = arg_post_gen_hooks a,
      cfg_venv_dir = arg_venv_dir a\<rparr>"

definition start :: "(string \<rightharpoonup> string) \<Rightarrow> state" where
  \<comment> \<open>the state in which \<^verbatim>\<open>run\<close> begins: no \<^verbatim>\<open>activate_command\<close>, nothing done yet\<close>
  "start fs = \<lparr>activate_command = None, trace = [], files = fs\<rparr>"

definition main :: "world \<Rightarrow> args \<Rightarrow> (string \<rightharpoonup> string) \<Rightarrow> int \<times> state" where
  \<comment> \<open>\<^verbatim>\<open>main\<close>, with the exit status of the process: 1 when an exception reaches the top
      level, 0 otherwise\<close>
  "main w a fs =
     (case FlaskForge_init w (config_of a) of
        Inl e \<Rightarrow> (1, start fs)
      | Inr f \<Rightarrow> (case run w f (start fs) of (Inl e, s) \<Rightarrow> (1, s) | (Inr u, s) \<Rightarrow> (0, s)))"

subsection \<open>The older variant\<close>

text \<open>
  \<^verbatim>\<open>src/fforge.py\<close> has the same constructor expressions and the same file-writing
  stages. Its other stages have no guard and do not ask \<^verbatim>\<open>subprocess.run\<close> to check the
  exit status, and its \<^verbatim>\<open>run\<close> has no dependency-installation stage.
\<close>

definition fforge_create_directories :: "world \<Rightarrow> forge \<Rightarrow> unit prog" where
  "fforge_create_directories w f =
     seq [os_makedirs w (project_path f),
          os_makedirs w (os_path_join w (project_path f) [project_name f]),
          os_makedirs w (os_path_join w (project_path f) [project_name f, ''templates'']),
          os_makedirs w (os_path_join w (project_path f) [project_name f, ''static'']),
          logger_info (''Directories created for project '' @ project_name f)]"

definition fforge_create_virtualenv :: "world \<Rightarrow> forge \<Rightarrow> unit prog" where
  "fforge_create_virtualenv w f =
     seq [subprocess_run w (ArgList [''python'', ''-m'', ''venv'', venv_dir f]) False False None,
          logger_info ''Virtual environment created'',
          set_activate_command (activate_path w f)]"

definition fforge_initialize_database :: "world \<Rightarrow> forge \<Rightarrow> unit prog" where
  "fforge_initialize_database w f =
     seq [flask_db w f False ''init'',
          flask_db w f False ''migrate'',
          flask_db w f False ''upgrade'',
          logger_info ''Initialized database'']"

definition fforge_run_hook :: "world \<Rightarrow> forge \<Rightarrow> string \<Rightarrow> unit prog" where
  "fforge_run_hook w f hook =
     bind get_activate_command (\<lambda>a.
       subprocess_run w (ArgStr (hook_command a hook)) True False (Some (project_path f)))"

definition fforge_run_post_gen_hooks :: "world \<Rightarrow> forge \<Rightarrow> unit prog" where
  "fforge_run_post_gen_hooks w f =
     (if post_gen_hooks f \<noteq> [] then
        seq [for_each (split CHR '','' (post_gen_hooks f)) (fforge_run_hook w f),
             logger_info ''Post-generation hooks executed'']
      else ret ())"

definition fforge_stages :: "world \<Rightarrow> forge \<Rightarrow> (stage \<times> unit prog) list" where
  "fforge_stages w f =
     [(Create_directories, fforge_create_directories w f),
      (Create_virtualenv, fforge_create_virtualenv w f),
      (Create_base_files, create_base_files w f),
      (Create_blueprints, create_blueprints w f),
      (Create_init_py, create_init_py w f),
      (Create_models_py, create_models_py w f),
      (Create_docker_files, create_docker_files w f),
      (Create_ci_cd_files, create_ci_cd_files w f),
      (Initialize_database, fforge_initialize_database w f),
      (Run_post_gen_hooks, fforge_run_post_gen_hooks w f)]"

definition fforge_run :: "world \<Rightarrow> forge \<Rightarrow> unit prog" where
  \<comment> \<open>\<^verbatim>\<open>FlaskForge.run\<close> of \<^verbatim>\<open>src/fforge.py\<close>\<close>
  "fforge_run w f = bind (pipeline (fforge_stages w f)) (\<lambda>_. logger_info (success_message f))"

subsection \<open>Reading a trace\<close>

fun commands :: "event list \<Rightarrow> (popen_args \<times> string option) list" where
  \<comment> \<open>the child processes started, in order, each with its working directory\<close>
  "commands [] = []"
| "commands (Popen a sh cwd # es) = (a, cwd) # commands es"
| "commands (e # es) = commands es"

fun entered :: "event list \<Rightarrow> stage list" where
  \<comment> \<open>the stages attempted, in order\<close>
  "entered [] = []"
| "entered (Enter st # es) = st # entered es"
| "entered (e # es) = entered es"

fun made_dirs :: "event list \<Rightarrow> string list" where
  "made_dirs [] = []"
| "made_dirs (Makedirs p # es) = p # made_dirs es"
| "made_dirs (e # es) = made_dirs es"

fun opened_w :: "event list \<Rightarrow> string list" where
  "opened_w [] = []"
| "opened_w (OpenW p # es) = p # opened_w es"
| "opened_w (e # es) = opened_w es"

fun errors_logged :: "event list \<Rightarrow> (string \<times> py_error) list" where
  "errors_logged [] = []"
| "errors_logged (Log ERROR msg (Some e) # es) = (msg, e) # errors_logged es"
| "errors_logged (e # es) = errors_logged es"

definition all_stages :: "stage list" where
  "all_stages =
     [Create_directories, Create_virtualenv, Install_dependencies, Create_base_files,
      Create_blueprints, Create_init_py, Create_models_py, Create_docker_files,
      Create_ci_cd_files, Initialize_database, Run_post_gen_hooks]"

definition fforge_all_stages :: "stage list" where
  \<comment> \<open>the stages of the older variant\<close>
  "fforge_all_stages =
     [Create_directories, Create_virtualenv, Create_base_files,
      Create_blueprints, Create_init_py, Create_models_py, Create_docker_files,
      Create_ci_cd_files, Initialize_database, Run_post_gen_hooks]"

subsection \<open>Vocabulary of the statements\<close>

definition inv :: "(state \<Rightarrow> bool) \<Rightarrow> 'a prog \<Rightarrow> bool" where
  \<comment> \<open>the program keeps the property of the state, however it ends\<close>
  "inv I m = (\<forall>s. I s \<longrightarrow> I (snd (m s)))"

definition activation_of :: "world \<Rightarrow> string \<Rightarrow> string" where
  \<comment> \<open>the activation of the environment in the directory \<open>d\<close>, written out: on a Windows
      host the path \<^verbatim>\<open>ntpath\<close> joins from \<open>d\<close>, \<^verbatim>\<open>Scripts\<close> and \<^verbatim>\<open>activate\<close>; on every
      other host \<^verbatim>\<open>source d/bin/activate\<close>\<close>
  "activation_of w d =
     (if platform_system w = ''Windows'' then ntpath_join w d [''Scripts'', ''activate'']
      else ''source '' @ d @ ''/bin/activate'')"

definition uses_venv :: "world \<Rightarrow> forge \<Rightarrow> popen_args \<Rightarrow> bool" where
  \<comment> \<open>the command either creates the environment at \<^verbatim>\<open>venv_dir\<close> or is a shell line that
      begins with the activation of the environment in that directory, followed by
      \<^verbatim>\<open> && \<close>\<close>
  "uses_venv w f a =
     (case a of
        ArgStr x \<Rightarrow> prefix (activation_of w (venv_dir f) @ '' && '') x
      | ArgList xs \<Rightarrow> xs = [''python'', ''-m'', ''venv'', venv_dir f]
                    \<or> (length xs = 1 \<and> prefix (activation_of w (venv_dir f) @ '' && '') (hd xs)))"

definition venv_inv :: "world \<Rightarrow> forge \<Rightarrow> state \<Rightarrow> bool" where
  "venv_inv w f s =
     ((activate_command s = None \<or> activate_command s = Some (activation_of w (venv_dir f)))
      \<and> list_all (\<lambda>(a, cwd). uses_venv w f a) (commands (trace s)))"

definition starts :: "world \<Rightarrow> bool" where
  \<comment> \<open>every child process can be started (the shell and the working directory exist)\<close>
  "starts w = (\<forall>h a sh cwd. popen w h a sh cwd \<noteq> Not_started)"

definition trims :: "string \<Rightarrow> string \<Rightarrow> bool" where
  \<comment> \<open>\<open>t\<close> is \<open>s\<close> without its leading and its trailing white space: \<open>s\<close> is \<open>t\<close> between
      two runs of white space, and \<open>t\<close> neither begins nor ends with white space\<close>
  "trims t s =
     (\<exists>l r. s = l @ t @ r \<and> list_all is_space l \<and> list_all is_space r
          \<and> (t = [] \<or> (\<not> is_space (hd t) \<and> \<not> is_space (last t))))"


definition quiet :: "'a prog \<Rightarrow> bool" where
  \<comment> \<open>the program only appends to the trace, and never the entry into a stage\<close>
  "quiet m = (\<forall>s. \<exists>es. trace (snd (m s)) = trace s @ es \<and> entered es = [])"

definition steady :: "(state \<Rightarrow> bool) \<Rightarrow> bool" where
  \<comment> \<open>the property of the state does not depend on the trace\<close>
  "steady I = (\<forall>s ev. I s \<longrightarrow> I (s\<lparr>trace := trace s @ [ev]\<rparr>))"

definition unset :: "state \<Rightarrow> bool" where
  \<comment> \<open>the attribute \<^verbatim>\<open>activate_command\<close> has not been assigned\<close>
  "unset s = (activate_command s = None)"

definition permissive :: "world \<Rightarrow> bool" where
  \<comment> \<open>the operating system refuses no file operation\<close>
  "permissive w = (\<forall>h e. \<not> os_refuses w h e)"

definition does :: "string option \<Rightarrow> unit prog \<Rightarrow> (popen_args \<times> string option) list \<Rightarrow> string option \<Rightarrow> bool" where
  \<comment> \<open>from a state with activation \<open>A\<close> the program returns normally, leaves the activation
      \<open>A'\<close> and has started exactly the child processes \<open>cs\<close>\<close>
  "does A m cs A' =
     (\<forall>s. activate_command s = A \<longrightarrow>
        fst (m s) = Inr () \<and> activate_command (snd (m s)) = A'
      \<and> commands (trace (snd (m s))) = commands (trace s) @ cs)"


definition bp_dir :: "world \<Rightarrow> forge \<Rightarrow> string \<Rightarrow> string" where
  \<comment> \<open>the directory of a blueprint, under the package root\<close>
  "bp_dir w f bp = os_path_join w (project_path f) [project_name f, bp]"

definition blueprint_dirs :: "world \<Rightarrow> forge \<Rightarrow> string \<Rightarrow> string list" where
  \<comment> \<open>the three directories made for a blueprint, in the order of the source\<close>
  "blueprint_dirs w f bp =
     [bp_dir w f bp, os_path_join w (bp_dir w f bp) [''templates''],
      os_path_join w (bp_dir w f bp) [''static'']]"

definition blueprint_files :: "world \<Rightarrow> forge \<Rightarrow> string \<Rightarrow> (string \<times> string) list" where
  \<comment> \<open>the four files written for a blueprint, each with its text, in the order of the source\<close>
  "blueprint_files w f bp =
     [(os_path_join w (bp_dir w f bp) [''routes.py''], routes_py bp),
      (os_path_join w (bp_dir w f bp) [''__init__.py''], init_py bp),
      (os_path_join w (bp_dir w f bp) [''forms.py''], forms_py),
      (os_path_join w (bp_dir w f bp) [''templates'', bp @ ''_home.html''], home_html w bp)]"

definition blueprint_events :: "world \<Rightarrow> forge \<Rightarrow> string \<Rightarrow> event list" where
  \<comment> \<open>the file operations of one blueprint\<close>
  "blueprint_events w f bp =
     map Makedirs (blueprint_dirs w f bp) @ map (\<lambda>(p, t). OpenW p) (blueprint_files w f bp)"

definition blueprint_names :: "forge \<Rightarrow> string list" where
  \<comment> \<open>the entries of the blueprint list, trimmed, the blank ones dropped\<close>
  "blueprint_names f = filter (\<lambda>bp. bp \<noteq> []) (map strip (blueprints f))"

definition write_all :: "(string \<times> string) list \<Rightarrow> (string \<rightharpoonup> string) \<Rightarrow> (string \<rightharpoonup> string)" where
  \<comment> \<open>the files after these texts have been written, one after the other\<close>
  "write_all pts m = fold (\<lambda>(p, t) m. m(p \<mapsto> t)) pts m"

definition acts :: "unit prog \<Rightarrow> event list \<Rightarrow> ((string \<rightharpoonup> string) \<Rightarrow> (string \<rightharpoonup> string)) \<Rightarrow> bool" where
  \<comment> \<open>whenever the program returns normally it has appended exactly these events and changed
      the files in exactly this way\<close>
  "acts m evs upd =
     (\<forall>s. fst (m s) = Inr () \<longrightarrow> snd (m s) = s\<lparr>trace := trace s @ evs, files := upd (files s)\<rparr>)"

subsection \<open>Concrete worlds and inputs\<close>

definition upper_letters :: string where
  \<comment> \<open>the upper-case letters below 256: A to Z, and U+00C0 to U+00DE without the
      multiplication sign U+00D7\<close>
  "upper_letters = ''ABCDEFGHIJKLMNOPQRSTUVWXYZ'' @
     [CHR 0xC0, CHR 0xC1, CHR 0xC2, CHR 0xC3, CHR 0xC4, CHR 0xC5, CHR 0xC6, CHR 0xC7,
      CHR 0xC8, CHR 0xC9, CHR 0xCA, CHR 0xCB, CHR 0xCC, CHR 0xCD, CHR 0xCE, CHR 0xCF,
      CHR 0xD0, CHR 0xD1, CHR 0xD2, CHR 0xD3, CHR 0xD4, CHR 0xD5, CHR 0xD6,
      CHR 0xD8, CHR 0xD9, CHR 0xDA, CHR 0xDB, CHR 0xDC, CHR 0xDD, CHR 0xDE]"

definition lower_letters :: string where
  \<comment> \<open>their lower-case forms, in the same order: a to z, and U+00E0 to U+00FE without the
      division sign U+00F7\<close>
  "lower_letters = ''abcdefghijklmnopqrstuvwxyz'' @
     [CHR 0xE0, CHR 0xE1, CHR 0xE2, CHR 0xE3, CHR 0xE4, CHR 0xE5, CHR 0xE6, CHR 0xE7,
      CHR 0xE8, CHR 0xE9, CHR 0xEA, CHR 0xEB, CHR 0xEC, CHR 0xED, CHR 0xEE, CHR 0xEF,
      CHR 0xF0, CHR 0xF1, CHR 0xF2, CHR 0xF3, CHR 0xF4, CHR 0xF5, CHR 0xF6,
      CHR 0xF8, CHR 0xF9, CHR 0xFA, CHR 0xFB, CHR 0xFC, CHR 0xFD, CHR 0xFE]"

definition latin1_lower :: "char \<Rightarrow> string" where
  \<comment> \<open>the lower-case mapping of Unicode on the code points below 256\<close>
  "latin1_lower c = (case map_of (zip upper_letters lower_letters) c of Some l \<Rightarrow> [l] | None \<Rightarrow> [c])"

definition latin1_title :: "char \<Rightarrow> string" where
  \<comment> \<open>the title-case mapping of Unicode on the code points below 256: the sharp s (U+00DF)
      becomes \<^verbatim>\<open>Ss\<close>. The title-case forms of the micro sign (U+00B5) and of the
      y with diaeresis (U+00FF) are U+039C and U+0178, which a character of the model cannot
      hold; the table leaves these two alone, and no statement below applies it to them.\<close>
  "latin1_title c =
     (if c = CHR 0xDF then ''Ss''
      else case map_of (zip lower_letters upper_letters) c of Some u \<Rightarrow> [u] | None \<Rightarrow> [c])"

definition calm_world :: world where
  \<comment> \<open>a Linux host on which nothing is refused, every process exits with status 0 and the
      template set is empty; the functions of \<^verbatim>\<open>ntpath\<close> are never called there\<close>
  "calm_world =
     \<lparr>getcwd = ''/home/dev'', module_dir = ''/opt/flaskforge'', platform_system = ''Linux'',
      os_refuses = (\<lambda>h e. False), popen = (\<lambda>h a sh cwd. Exited 0),
      os_walk = (\<lambda>top. []), relpath = (\<lambda>p start. drop (Suc (length start)) p),
      jinja_render = (\<lambda>text name. Inr text),
      ntpath_join = (\<lambda>a p. []), ntpath_dirname = (\<lambda>p. []),
      totitle = latin1_title, tolower = latin1_lower\<rparr>"

definition shop_args :: args where
  \<comment> \<open>\<^verbatim>\<open>flaskforge shop -bp catalog,cart -tl rest_api -D ""\<close>\<close>
  "shop_args =
     \<lparr>arg_project_name = ''shop'', arg_blueprints = ''catalog,cart'', arg_dependencies = [],
      arg_verbosity = 0, arg_template = ''rest_api'', arg_config = [],
      arg_post_gen_hooks = [], arg_venv_dir = None\<rparr>"

definition hook_world :: world where
  \<comment> \<open>as \<^verbatim>\<open>calm_world\<close>, but the hook \<^verbatim>\<open>false\<close> exits with status 1\<close>
  "hook_world = calm_world\<lparr>popen := (\<lambda>h a sh cwd.
       if a = ArgStr ''source /home/dev/shop/.fforge/bin/activate && false'' then Exited 1 else Exited 0)\<rparr>"

definition shop_forge :: "string \<Rightarrow> forge" where
  \<comment> \<open>the object built from \<^verbatim>\<open>shop_args\<close> in \<^verbatim>\<open>calm_world\<close>, with the given hook string\<close>
  "shop_forge hooks =
     \<lparr>project_name = ''shop'', blueprints = [''catalog'', ''cart''], dependencies = [],
      verbosity = 0, template = ''rest_api'', config_path = [], post_gen_hooks = hooks,
      project_path = ''/home/dev/shop'', venv_dir = ''/home/dev/shop/.fforge'',
      logger_level = CRITICAL\<rparr>"

definition activated :: state where
  \<comment> \<open>a state in which the environment has been created\<close>
  "activated = \<lparr>activate_command = Some ''source /home/dev/shop/.fforge/bin/activate'',
     trace = [], files = Map.empty\<rparr>"

definition venv_fails_world :: world where
  \<comment> \<open>as \<^verbatim>\<open>calm_world\<close>, but \<^verbatim>\<open>python -m venv\<close> exits with status 1\<close>
  "venv_fails_world = calm_world\<lparr>popen := (\<lambda>h a sh cwd.
       if a = ArgList [''python'', ''-m'', ''venv'', ''/home/dev/shop/.fforge''] then Exited 1 else Exited 0)\<rparr>"

definition default_dependencies :: string where
  \<comment> \<open>the default of \<^verbatim>\<open>--dependencies\<close>\<close>
  "default_dependencies = ''Flask,Flask-CKEditor,Flask-Mail,Flask-Login,Flask-Migrate,Flask-SQLAlchemy,Flask-WTF,email_validator,python-dotenv''"

definition crash_args :: args where
  \<comment> \<open>\<^verbatim>\<open>flaskforge shop -bp catalog,cart -hks "echo done"\<close>, the dependencies left at their default\<close>
  "crash_args = shop_args\<lparr>arg_dependencies := default_dependencies, arg_post_gen_hooks := ''echo done''\<rparr>"

definition crash_forge :: forge where
  \<comment> \<open>the object built from \<^verbatim>\<open>crash_args\<close>\<close>
  "crash_forge = (shop_forge ''echo done'')\<lparr>dependencies := split CHR '','' default_dependencies\<rparr>"


definition blog_forge :: forge where
  \<comment> \<open>a project with the one blueprint \<^verbatim>\<open>" my blog "\<close>\<close>
  "blog_forge = (shop_forge [])\<lparr>blueprints := ['' my blog '']\<rparr>"

section \<open>Traces and invariants\<close>

lemma commands_append: "commands (xs @ ys) = commands xs @ commands ys"
  by (induction xs rule: commands.induct) simp_all

lemma inv_ret: "inv I (ret x)"
  by (simp add: inv_def ret_def)

lemma inv_bind: "inv I m \<Longrightarrow> (\<And>x. inv I (k x)) \<Longrightarrow> inv I (bind m k)"
  unfolding inv_def bind_def
  by (auto split: prod.splits sum.splits)

lemma inv_seq: "(\<And>m. m \<in> set ms \<Longrightarrow> inv I m) \<Longrightarrow> inv I (seq ms)"
  by (induction ms) (auto intro: inv_ret inv_bind)

lemma inv_for_each: "(\<And>x. inv I (body x)) \<Longrightarrow> inv I (for_each xs body)"
  unfolding for_each_def by (rule inv_seq) auto

lemma inv_try_except: "inv I m \<Longrightarrow> (\<And>e. inv I (h e)) \<Longrightarrow> inv I (try_except m c h)"
  unfolding inv_def try_except_def
  by (auto split: prod.splits sum.splits)

lemma entered_append: "entered (xs @ ys) = entered xs @ entered ys"
  by (induction xs rule: entered.induct) simp_all

lemma quietI: "(\<And>s. \<exists>es. trace (snd (m s)) = trace s @ es \<and> entered es = []) \<Longrightarrow> quiet m"
  by (simp add: quiet_def)

lemma quietD: "quiet m \<Longrightarrow> \<exists>es. trace (snd (m s)) = trace s @ es \<and> entered es = []"
  by (simp add: quiet_def)

lemma quiet_ret: "quiet (ret x)"
  by (simp add: quiet_def ret_def)

lemma quiet_bind:
  assumes "quiet m" "\<And>x. quiet (k x)"
  shows "quiet (bind m k)"
proof (rule quietI)
  fix s
  obtain r s1 where ms: "m s = (r, s1)" by (cases "m s")
  from quietD[OF assms(1), of s] ms obtain es where 1: "trace s1 = trace s @ es" "entered es = []"
    by auto
  show "\<exists>es. trace (snd (bind m k s)) = trace s @ es \<and> entered es = []"
  proof (cases r)
    case (Inl e)
    then show ?thesis using ms 1 by (simp add: bind_def)
  next
    case (Inr x)
    from quietD[OF assms(2), of x s1] obtain es' where
      2: "trace (snd (k x s1)) = trace s1 @ es'" "entered es' = []" by blast
    show ?thesis using ms Inr 1 2 by (simp add: bind_def entered_append)
  qed
qed

lemma quiet_seq: "(\<And>m. m \<in> set ms \<Longrightarrow> quiet m) \<Longrightarrow> quiet (seq ms)"
  by (induction ms) (auto intro: quiet_ret quiet_bind)

lemma quiet_for_each: "(\<And>x. quiet (body x)) \<Longrightarrow> quiet (for_each xs body)"
  unfolding for_each_def by (rule quiet_seq) auto

lemma quiet_try_except:
  assumes "quiet m" "\<And>e. quiet (h e)"
  shows "quiet (try_except m c h)"
proof (rule quietI)
  fix s
  obtain r s1 where ms: "m s = (r, s1)" by (cases "m s")
  from quietD[OF assms(1), of s] ms obtain es where 1: "trace s1 = trace s @ es" "entered es = []"
    by auto
  show "\<exists>es. trace (snd (try_except m c h s)) = trace s @ es \<and> entered es = []"
  proof (cases r)
    case (Inl e)
    from quietD[OF assms(2), of e s1] obtain es' where
      2: "trace (snd (h e s1)) = trace s1 @ es'" "entered es' = []" by blast
    show ?thesis using ms Inl 1 2 by (auto simp: try_except_def entered_append)
  next
    case (Inr x)
    then show ?thesis using ms 1 by (simp add: try_except_def)
  qed
qed

lemma quiet_emit: "\<forall>st. ev \<noteq> Enter st \<Longrightarrow> quiet (emit ev)"
  by (cases ev) (auto simp: quiet_def emit_def)

lemma quiet_logger_info: "quiet (logger_info m)"
  unfolding logger_info_def by (rule quiet_emit) simp

lemma quiet_logger_error: "quiet (logger_error m e)"
  unfolding logger_error_def by (rule quiet_emit) simp

lemma quiet_os_makedirs: "quiet (os_makedirs w p)"
  by (auto simp: quiet_def os_makedirs_def Let_def)

lemma quiet_open_r: "quiet (open_r w p)"
  by (auto simp: quiet_def open_r_def Let_def)

lemma quiet_open_w: "quiet (open_w w p)"
  by (auto simp: quiet_def open_w_def Let_def)

lemma quiet_f_read: "quiet (f_read p)"
  by (auto simp: quiet_def f_read_def)

lemma quiet_f_write: "quiet (f_write p t)"
  by (auto simp: quiet_def f_write_def)

lemma quiet_pure: "quiet (\<lambda>s. (r, s))"
  by (auto simp: quiet_def)

lemma quiet_subprocess_run: "quiet (subprocess_run w a sh ck cwd)"
  by (auto simp: quiet_def subprocess_run_def Let_def split: proc_result.splits)

lemma quiet_get_activate_command: "quiet get_activate_command"
  by (auto simp: quiet_def get_activate_command_def split: option.splits)

lemma quiet_set_activate_command: "quiet (set_activate_command a)"
  by (auto simp: quiet_def set_activate_command_def)

lemmas quiet_intros = quiet_ret quiet_bind quiet_seq quiet_for_each quiet_try_except
  quiet_logger_info quiet_logger_error quiet_os_makedirs quiet_open_r quiet_open_w quiet_f_read
  quiet_f_write quiet_pure quiet_subprocess_run quiet_get_activate_command quiet_set_activate_command

lemma quiet_write_file: "quiet (write_file w p t)"
  unfolding write_file_def by (intro quiet_intros)

lemma quiet_create_directories: "quiet (create_directories w f)"
  unfolding create_directories_def by (auto intro!: quiet_intros)

lemma quiet_create_virtualenv: "quiet (create_virtualenv w f)"
  unfolding create_virtualenv_def by (auto intro!: quiet_intros)

lemma quiet_install_dependencies: "quiet (install_dependencies w f)"
  unfolding install_dependencies_def by (auto intro!: quiet_intros)

lemma quiet_render_file: "quiet (render_file w f root file)"
  unfolding render_file_def Let_def by (auto intro!: quiet_intros)

lemma quiet_create_base_files: "quiet (create_base_files w f)"
  unfolding create_base_files_def by (auto intro!: quiet_intros quiet_render_file)

lemma quiet_create_blueprints: "quiet (create_blueprints w f)"
  unfolding create_blueprints_def create_blueprint_def create_blueprint_files_def Let_def
  by (auto intro!: quiet_intros quiet_write_file)

lemma quiet_create_init_py: "quiet (create_init_py w f)"
  unfolding create_init_py_def by (auto intro!: quiet_intros quiet_write_file)

lemma quiet_create_models_py: "quiet (create_models_py w f)"
  unfolding create_models_py_def by (auto intro!: quiet_intros quiet_write_file)

lemma quiet_create_docker_files: "quiet (create_docker_files w f)"
  unfolding create_docker_files_def by (auto intro!: quiet_intros quiet_write_file)

lemma quiet_create_ci_cd_files: "quiet (create_ci_cd_files w f)"
  unfolding create_ci_cd_files_def Let_def by (auto intro!: quiet_intros quiet_write_file)

lemma quiet_initialize_database: "quiet (initialize_database w f)"
  unfolding initialize_database_def flask_db_def by (auto intro!: quiet_intros)

lemma quiet_run_post_gen_hooks: "quiet (run_post_gen_hooks w f)"
  unfolding run_post_gen_hooks_def run_hook_def by (auto intro!: quiet_intros)

lemma quiet_stages: "(st, m) \<in> set (stages w f) \<Longrightarrow> quiet m"
  unfolding stages_def
  by (auto intro: quiet_create_directories quiet_create_virtualenv quiet_install_dependencies
      quiet_create_base_files quiet_create_blueprints quiet_create_init_py quiet_create_models_py
      quiet_create_docker_files quiet_create_ci_cd_files quiet_initialize_database
      quiet_run_post_gen_hooks)

lemma map_fst_stages: "map fst (stages w f) = all_stages"
  by (simp add: stages_def all_stages_def)


lemma pipeline_Cons: "pipeline ((st, m) # ps) = bind (call st m) (\<lambda>_. pipeline ps)"
  by (simp add: pipeline_def)

lemma call_effect:
  assumes "quiet m" "inv I m" "steady I" "I s"
  shows "entered (trace (snd (call st m s))) = entered (trace s) @ [st]
       \<and> I (snd (call st m s))
       \<and> (\<exists>si. I si \<and> fst (m si) = fst (call st m s))"
proof -
  let ?s1 = "s\<lparr>trace := trace s @ [Enter st]\<rparr>"
  have c: "call st m s = m ?s1" by (simp add: call_def bind_def emit_def)
  have i1: "I ?s1" using assms(3,4) by (simp add: steady_def)
  from quietD[OF assms(1), of ?s1] obtain es where
    "trace (snd (m ?s1)) = trace ?s1 @ es" "entered es = []" by blast
  then have "entered (trace (snd (m ?s1))) = entered (trace s) @ [st]"
    by (simp add: entered_append)
  moreover have "I (snd (m ?s1))" using assms(2) i1 by (simp add: inv_def)
  ultimately show ?thesis using c i1 by auto
qed





lemma pipeline_blocked:
  assumes "list_all (\<lambda>p. quiet (snd p) \<and> inv I (snd p)) ps" and "steady I" and "I s"
    and "i < length ps" and "\<forall>si. I si \<longrightarrow> (\<exists>e. fst (snd (ps ! i) si) = Inl e)"
  shows "(\<exists>e. fst (pipeline ps s) = Inl e)
       \<and> (\<exists>k\<le>Suc i. entered (trace (snd (pipeline ps s))) = entered (trace s) @ take k (map fst ps))"
  using assms(1,3,4,5)
proof (induction ps arbitrary: s i)
  case Nil
  then show ?case by simp
next
  case (Cons p ps)
  obtain st m where p: "p = (st, m)" by (cases p)
  have qm: "quiet m" "inv I m" using Cons.prems(1) p by auto
  obtain r s1 where c: "call st m s = (r, s1)" by (cases "call st m s")
  from call_effect[OF qm assms(2) Cons.prems(2), where st=st] c obtain si where
    1: "entered (trace s1) = entered (trace s) @ [st]" "I s1" "I si" "fst (m si) = r" by auto
  show ?case
  proof (cases r)
    case (Inl e)
    have "pipeline (p # ps) s = (Inl e, s1)"
      using c Inl p by (simp add: pipeline_Cons bind_def)
    then show ?thesis using 1(1) p by (auto intro!: exI[of _ 1])
  next
    case (Inr u)
    have sq: "pipeline (p # ps) s = pipeline ps s1"
      using c Inr p by (simp add: pipeline_Cons bind_def)
    have "i \<noteq> 0"
    proof
      assume "i = 0"
      then have "\<exists>e. fst (m si) = Inl e" using Cons.prems(4) 1(3) p by simp
      then show False using 1(4) Inr by simp
    qed
    then obtain i' where i: "i = Suc i'" by (cases i) auto
    have a: "list_all (\<lambda>p. quiet (snd p) \<and> inv I (snd p)) ps" using Cons.prems(1) by simp
    have b: "i' < length ps" using Cons.prems(3) i by simp
    have d: "\<forall>si. I si \<longrightarrow> (\<exists>e. fst (snd (ps ! i') si) = Inl e)" using Cons.prems(4) i by simp
    from Cons.IH[OF a 1(2) b d] obtain k where k: "\<exists>e. fst (pipeline ps s1) = Inl e" "k \<le> Suc i'"
      "entered (trace (snd (pipeline ps s1))) = entered (trace s1) @ take k (map fst ps)"
      by blast
    show ?thesis unfolding sq using k 1(1) p i by (auto intro!: exI[of _ "Suc k"])
  qed
qed

lemma bind_Inr: "fst (m s) = Inr x \<Longrightarrow> bind m k s = k x (snd (m s))"
  by (cases "m s") (simp add: bind_def)

lemma bind_Inl: "fst (m s) = Inl e \<Longrightarrow> bind m k s = (Inl e, snd (m s))"
  by (cases "m s") (simp add: bind_def)

lemma call_eq: "call st m s = m (s\<lparr>trace := trace s @ [Enter st]\<rparr>)"
  by (simp add: call_def bind_def emit_def)

lemma create_directories_returns: "fst (create_directories w f s) = Inr ()"
  by (simp add: create_directories_def try_except_def bind_def ret_def os_makedirs_def Let_def
      logger_info_def logger_error_def emit_def)

lemma actsD:
  "acts m evs upd \<Longrightarrow> fst (m s) = Inr () \<Longrightarrow> snd (m s) = s\<lparr>trace := trace s @ evs, files := upd (files s)\<rparr>"
  by (simp add: acts_def)

lemma bind_Inr_iff:
  "fst (bind m k s) = Inr y \<longleftrightarrow> (\<exists>x. fst (m s) = Inr x \<and> fst (k x (snd (m s))) = Inr y)"
  by (cases "m s") (auto simp: bind_def split: sum.splits)

lemma acts_ret: "acts (ret ()) [] (\<lambda>m. m)"
  by (simp add: acts_def ret_def)

lemma acts_bind:
  assumes "acts m e1 u1" "acts (k ()) e2 u2"
  shows "acts (bind m k) (e1 @ e2) (\<lambda>fs. u2 (u1 fs))"
  unfolding acts_def
proof (intro allI impI)
  fix s :: state assume r: "fst (bind m k s) = Inr ()"
  then have 1: "fst (m s) = Inr ()" and 2: "fst (k () (snd (m s))) = Inr ()"
    by (auto simp: bind_Inr_iff)
  have "bind m k s = k () (snd (m s))" using 1 by (simp add: bind_Inr)
  then show "snd (bind m k s) = s\<lparr>trace := trace s @ e1 @ e2, files := u2 (u1 (files s))\<rparr>"
    using actsD[OF assms(1) 1] actsD[OF assms(2) 2] by simp
qed

lemma acts_seq_Cons:
  "acts m e1 u1 \<Longrightarrow> acts (seq ms) e2 u2 \<Longrightarrow> acts (seq (m # ms)) (e1 @ e2) (\<lambda>fs. u2 (u1 fs))"
  by (simp add: acts_bind)

lemma acts_seq_Nil: "acts (seq []) [] (\<lambda>m. m)"
  by (simp add: acts_ret)

lemma acts_for_each:
  assumes "\<And>x. acts (body x) (ev x) (u x)"
  shows "acts (for_each xs body) (concat (map ev xs)) (fold u xs)"
proof (induction xs)
  case Nil
  then show ?case by (simp add: for_each_def acts_ret)
next
  case (Cons x xs)
  from acts_seq_Cons[OF assms[of x] Cons.IH[unfolded for_each_def]]
  show ?case by (simp add: for_each_def comp_def)
qed

lemma acts_os_makedirs: "acts (os_makedirs w p) [Makedirs p] (\<lambda>m. m)"
  by (simp add: acts_def os_makedirs_def Let_def)

lemma acts_write_file: "acts (write_file w p t) [OpenW p] (\<lambda>m. m(p \<mapsto> t))"
  by (simp add: acts_def write_file_def bind_def open_w_def f_write_def Let_def)

lemma acts_logger_info: "acts (logger_info msg) [Log INFO msg None] (\<lambda>m. m)"
  by (simp add: acts_def logger_info_def emit_def)

section \<open>The log level\<close>

text \<open>
  Claim C9. For every integer verbosity \<open>v\<close> the level handed to the logging subsystem is
  CRITICAL for 0, ERROR for 1, WARNING for 2, INFO for 3, DEBUG for 4, and INFO for every
  other integer: the table is looked up with INFO as the default.
\<close>

theorem setup_logging_table: "setup_logging v =
     (if v = 0 then CRITICAL else if v = 1 then ERROR else if v = 2 then WARNING
      else if v = 3 then INFO else if v = 4 then DEBUG else INFO)"
  by (simp add: setup_logging_def log_levels_def)

section \<open>The environment directory\<close>

lemma join2_nonempty: "b \<noteq> [] \<Longrightarrow> join2 a b \<noteq> []"
  by (simp add: join2_def)

lemma posix_join: "platform_system w \<noteq> ''Windows'' \<Longrightarrow> os_path_join w a p = foldl join2 a p"
  by (simp add: os_path_join_def posixpath_join_def)

lemma choose_venv_dir_fixed:
  "os_path_join w pp [''.fforge''] \<noteq> [] \<Longrightarrow> choose_venv_dir w pp vd = Inr (os_path_join w pp [''.fforge''])"
  by (simp add: choose_venv_dir_def)

lemma activate_path_explicit:
  assumes "platform_system w \<noteq> ''Windows'' \<longrightarrow> venv_dir f \<noteq> [] \<and> last (venv_dir f) \<noteq> CHR ''/''"
  shows "activate_path w f = activation_of w (venv_dir f)"
  using assms by (auto simp: activate_path_def activation_of_def os_path_join_def posixpath_join_def join2_def)

lemma inv_emit_venv: "\<forall>a sh cwd. ev \<noteq> Popen a sh cwd \<Longrightarrow> inv (venv_inv w f) (emit ev)"
  by (cases ev) (auto simp: inv_def emit_def venv_inv_def commands_append)

lemma inv_logger_info_venv: "inv (venv_inv w f) (logger_info m)"
  unfolding logger_info_def by (rule inv_emit_venv) simp

lemma inv_logger_error_venv: "inv (venv_inv w f) (logger_error m e)"
  unfolding logger_error_def by (rule inv_emit_venv) simp

lemma inv_os_makedirs_venv: "inv (venv_inv w f) (os_makedirs w p)"
  by (auto simp: inv_def os_makedirs_def venv_inv_def commands_append Let_def)

lemma inv_write_file_venv: "inv (venv_inv w f) (write_file w p t)"
  by (auto simp: inv_def write_file_def bind_def open_w_def f_write_def venv_inv_def commands_append Let_def)

lemma inv_run_venv:
  "uses_venv w f a \<Longrightarrow> inv (venv_inv w f) (subprocess_run w a sh ck cwd)"
  by (auto simp: inv_def subprocess_run_def venv_inv_def commands_append Let_def split: proc_result.splits)

lemma inv_activated_str_venv:
  "prefix '' && '' r \<Longrightarrow>
   inv (venv_inv w f) (bind get_activate_command (\<lambda>a. subprocess_run w (ArgStr (a @ r)) sh ck cwd))"
  by (auto simp: inv_def bind_def get_activate_command_def subprocess_run_def venv_inv_def
      uses_venv_def commands_append Let_def split: proc_result.splits option.splits)

lemma inv_activated_list_venv:
  "prefix '' && '' r \<Longrightarrow>
   inv (venv_inv w f) (bind get_activate_command (\<lambda>a. subprocess_run w (ArgList [a @ r]) sh ck cwd))"
  by (auto simp: inv_def bind_def get_activate_command_def subprocess_run_def venv_inv_def
      uses_venv_def commands_append Let_def split: proc_result.splits option.splits)

lemmas venv_intros = inv_ret inv_bind inv_seq inv_for_each inv_try_except inv_logger_info_venv
  inv_logger_error_venv inv_os_makedirs_venv inv_write_file_venv

lemma inv_create_directories_venv: "inv (venv_inv w f) (create_directories w f)"
  unfolding create_directories_def by (intro venv_intros) (auto intro: venv_intros)

lemma inv_set_activate_venv: "inv (venv_inv w f) (set_activate_command (activation_of w (venv_dir f)))"
  by (simp add: inv_def set_activate_command_def venv_inv_def)

lemma inv_create_virtualenv_venv:
  "activate_path w f = activation_of w (venv_dir f) \<Longrightarrow> inv (venv_inv w f) (create_virtualenv w f)"
  unfolding create_virtualenv_def
  by (intro venv_intros) (auto intro: venv_intros inv_set_activate_venv inv_run_venv simp: uses_venv_def)

lemma inv_install_dependencies_venv: "inv (venv_inv w f) (install_dependencies w f)"
  unfolding install_dependencies_def
  by (auto intro!: venv_intros inv_activated_list_venv)

lemma inv_render_file_venv: "inv (venv_inv w f) (render_file w f root file)"
  by (auto simp: inv_def render_file_def Let_def bind_def os_makedirs_def open_r_def open_w_def 
      f_read_def f_write_def venv_inv_def commands_append ret_def split: sum.splits)

lemma inv_create_base_files_venv: "inv (venv_inv w f) (create_base_files w f)"
  unfolding create_base_files_def
  by (auto intro!: venv_intros inv_render_file_venv)

lemma inv_create_blueprints_venv: "inv (venv_inv w f) (create_blueprints w f)"
  unfolding create_blueprints_def create_blueprint_def create_blueprint_files_def Let_def
  by (auto intro!: venv_intros)

lemma inv_create_init_py_venv: "inv (venv_inv w f) (create_init_py w f)"
  unfolding create_init_py_def by (auto intro!: venv_intros)

lemma inv_create_models_py_venv: "inv (venv_inv w f) (create_models_py w f)"
  unfolding create_models_py_def by (auto intro!: venv_intros)

lemma inv_create_docker_files_venv: "inv (venv_inv w f) (create_docker_files w f)"
  unfolding create_docker_files_def by (auto intro!: venv_intros)

lemma inv_create_ci_cd_files_venv: "inv (venv_inv w f) (create_ci_cd_files w f)"
  unfolding create_ci_cd_files_def Let_def by (auto intro!: venv_intros)

lemma inv_initialize_database_venv: "inv (venv_inv w f) (initialize_database w f)"
  unfolding initialize_database_def flask_db_def
  by (auto intro!: venv_intros inv_activated_list_venv)

lemma inv_run_post_gen_hooks_venv: "inv (venv_inv w f) (run_post_gen_hooks w f)"
  unfolding run_post_gen_hooks_def run_hook_def hook_command_def
  by (auto intro!: venv_intros inv_activated_str_venv)

lemma inv_call_venv: "inv (venv_inv w f) m \<Longrightarrow> inv (venv_inv w f) (call st m)"
  unfolding call_def by (auto intro!: venv_intros inv_emit_venv)

lemma inv_run_venv_all:
  "activate_path w f = activation_of w (venv_dir f) \<Longrightarrow> inv (venv_inv w f) (run w f)"
  unfolding run_def pipeline_def stages_def
  by (auto intro!: venv_intros inv_call_venv inv_create_directories_venv inv_create_virtualenv_venv
      inv_install_dependencies_venv inv_create_base_files_venv inv_create_blueprints_venv
      inv_create_init_py_venv inv_create_models_py_venv inv_create_docker_files_venv
      inv_create_ci_cd_files_venv inv_initialize_database_venv inv_run_post_gen_hooks_venv)


lemma venv_inv_start: "venv_inv w f (start fs)"
  by (simp add: venv_inv_def start_def)

text \<open>
  Claim C2. Whatever the configuration says, and whatever directory the \<^verbatim>\<open>venv_dir\<close>
  option names, construction succeeds with the environment directory \<^verbatim>\<open>.fforge\<close> joined
  to the project root: the left operand of the \<^verbatim>\<open>or\<close> is never empty, so the right one is
  never evaluated and the object does not depend on the option. In every run, finished or
  not, every child process is either the creation of the environment at that directory or
  a shell line that begins with the activation of the environment in that directory (on a
  host other than Windows, \<^verbatim>\<open>source\<close>, the directory and \<^verbatim>\<open>/bin/activate\<close>) followed by
  \<^verbatim>\<open> && \<close>. On a Windows host the paths are those \<^verbatim>\<open>ntpath.join\<close> returns, and the one
  thing assumed of it is that joining \<^verbatim>\<open>.fforge\<close> to the project root does not give the
  empty string.
\<close>

theorem venv_dir_always_fixed:
  assumes "platform_system w = ''Windows'' \<longrightarrow>
             ntpath_join w (ntpath_join w (getcwd w) [cfg_project_name c]) [''.fforge''] \<noteq> []"
  shows "\<exists>f. FlaskForge_init w c = Inr f
     \<and> project_path f = os_path_join w (getcwd w) [cfg_project_name c]
     \<and> venv_dir f = os_path_join w (project_path f) [''.fforge'']
     \<and> (platform_system w \<noteq> ''Windows'' \<longrightarrow>
          project_path f = join2 (getcwd w) (cfg_project_name c)
        \<and> venv_dir f = join2 (project_path f) ''.fforge'')
     \<and> FlaskForge_init w (c\<lparr>cfg_venv_dir := d\<rparr>) = Inr f
     \<and> list_all (\<lambda>(a, cwd). uses_venv w f a) (commands (trace (snd (run w f (start fs)))))"
proof -
  let ?pp = "os_path_join w (getcwd w) [cfg_project_name c]"
  let ?vd = "os_path_join w ?pp [''.fforge'']"
  let ?f = "\<lparr>project_name = cfg_project_name c, blueprints = cfg_blueprints c,
                  dependencies = cfg_dependencies c, verbosity = cfg_verbosity c,
                  template = cfg_template c, config_path = cfg_config_path c,
                  post_gen_hooks = cfg_post_gen_hooks c, project_path = ?pp,
                  venv_dir = ?vd, logger_level = setup_logging (cfg_verbosity c)\<rparr>"
  have ne: "?vd \<noteq> []"
  proof (cases "platform_system w = ''Windows''")
    case True
    then show ?thesis using assms by (simp add: os_path_join_def)
  next
    case False
    then show ?thesis by (simp add: posix_join join2_nonempty)
  qed
  have init: "FlaskForge_init w c' = Inr ?f" if "c' = c\<lparr>cfg_venv_dir := d'\<rparr>" for c' d'
    using that ne by (simp add: FlaskForge_init_def choose_venv_dir_fixed Let_def)
  have 1: "FlaskForge_init w c = Inr ?f" using init[of c "cfg_venv_dir c"] by simp
  have 2: "FlaskForge_init w (c\<lparr>cfg_venv_dir := d\<rparr>) = Inr ?f" using init by simp
  have "platform_system w \<noteq> ''Windows'' \<longrightarrow> venv_dir ?f \<noteq> [] \<and> last (venv_dir ?f) \<noteq> CHR ''/''"
    by (simp add: posix_join join2_def)
  then have ap: "activate_path w ?f = activation_of w (venv_dir ?f)"
    by (rule activate_path_explicit)
  have "venv_inv w ?f (snd (run w ?f (start fs)))"
    using inv_run_venv_all[OF ap] venv_inv_start[of w ?f fs] by (simp add: inv_def)
  then have 3: "list_all (\<lambda>(a, cwd). uses_venv w ?f a) (commands (trace (snd (run w ?f (start fs)))))"
    by (simp add: venv_inv_def)
  show ?thesis using 1 2 3 by (intro exI[of _ ?f]) (simp add: posix_join)
qed

text \<open>Witness: the option names \<^verbatim>\<open>env\<close>, and the directory is still \<^verbatim>\<open>.fforge\<close>.\<close>

theorem venv_dir_always_fixed_witness:
  "\<exists>f. FlaskForge_init calm_world ((config_of shop_args)\<lparr>cfg_venv_dir := Some ''env''\<rparr>) = Inr f
     \<and> venv_dir f = ''/home/dev/shop/.fforge''"
proof -
  have p: "platform_system calm_world \<noteq> ''Windows''" by (simp add: calm_world_def)
  from venv_dir_always_fixed [of calm_world "config_of shop_args" "Some ''env''" Map.empty] p
  obtain f where f: "FlaskForge_init calm_world ((config_of shop_args)\<lparr>cfg_venv_dir := Some ''env''\<rparr>) = Inr f"
    "project_path f = join2 (getcwd calm_world) (cfg_project_name (config_of shop_args))"
    "venv_dir f = join2 (project_path f) ''.fforge''"
    by auto
  have "venv_dir f = ''/home/dev/shop/.fforge''"
    unfolding f(3) f(2) by (simp add: calm_world_def shop_args_def config_of_def join2_def)
  with f(1) show ?thesis by blast
qed

section \<open>The post-generation hooks\<close>

lemma split_nonempty: "split c s \<noteq> []"
  by (induction s) (auto split: list.splits)

lemma length_split: "length (split c s) = Suc (count_list s c)"
  by (induction s) (auto split: list.splits simp: split_nonempty)

lemma split_snoc: "split c (s @ [c]) = split c s @ [[]]"
  by (induction s) (auto split: list.splits simp: split_nonempty)

lemma run_hook_effect:
  assumes "activate_command s = Some a" "starts w"
  shows "\<exists>s'. run_hook w f hook s = (Inr (), s') \<and> activate_command s' = Some a
           \<and> commands (trace s') = commands (trace s) @ [(ArgStr (hook_command a hook), Some (project_path f))]"
  using assms
  by (auto simp: run_hook_def try_except_def bind_def get_activate_command_def subprocess_run_def
      Let_def starts_def logger_error_def emit_def commands_append split: proc_result.splits)

lemma fforge_run_hook_effect:
  assumes "activate_command s = Some a" "starts w"
  shows "\<exists>s'. fforge_run_hook w f hook s = (Inr (), s') \<and> activate_command s' = Some a
           \<and> commands (trace s') = commands (trace s) @ [(ArgStr (hook_command a hook), Some (project_path f))]"
  using assms
  by (auto simp: fforge_run_hook_def bind_def get_activate_command_def subprocess_run_def
      Let_def starts_def commands_append split: proc_result.splits)

lemma for_each_effect:
  assumes step: "\<And>x s. activate_command s = Some a \<Longrightarrow>
      \<exists>s'. body x s = (Inr (), s') \<and> activate_command s' = Some a
           \<and> commands (trace s') = commands (trace s) @ [g x]"
    and "activate_command s = Some a"
  shows "\<exists>s'. for_each xs body s = (Inr (), s') \<and> activate_command s' = Some a
           \<and> commands (trace s') = commands (trace s) @ map g xs"
  using assms(2)
proof (induction xs arbitrary: s)
  case Nil
  then show ?case by (simp add: for_each_def ret_def)
next
  case (Cons x xs)
  from step[OF Cons.prems, of x] obtain s1 where
    1: "body x s = (Inr (), s1)" "activate_command s1 = Some a"
       "commands (trace s1) = commands (trace s) @ [g x]" by blast
  from Cons.IH[OF 1(2)] obtain s2 where
    2: "for_each xs body s1 = (Inr (), s2)" "activate_command s2 = Some a"
       "commands (trace s2) = commands (trace s1) @ map g xs" by blast
  show ?case using 1 2 by (simp add: for_each_def bind_def)
qed

lemma hooks_effect:
  assumes "activate_command s = Some a" "starts w"
  shows "\<exists>s'. run_post_gen_hooks w f s = (Inr (), s') \<and> activate_command s' = Some a
     \<and> commands (trace s') = commands (trace s) @
         (if post_gen_hooks f = [] then []
          else map (\<lambda>hook. (ArgStr (hook_command a hook), Some (project_path f)))
                 (split CHR '','' (post_gen_hooks f)))"
proof (cases "post_gen_hooks f = []")
  case True
  then show ?thesis using assms(1) by (simp add: run_post_gen_hooks_def ret_def)
next
  case False
  from for_each_effect[where body="run_hook w f" and a=a and s=s
      and g="\<lambda>hook. (ArgStr (hook_command a hook), Some (project_path f))",
      OF run_hook_effect[OF _ assms(2)] assms(1)]
  obtain s1 where 1: "for_each (split CHR '','' (post_gen_hooks f)) (run_hook w f) s = (Inr (), s1)"
    "activate_command s1 = Some a"
    "commands (trace s1) = commands (trace s) @
       map (\<lambda>hook. (ArgStr (hook_command a hook), Some (project_path f))) (split CHR '','' (post_gen_hooks f))"
    by blast
  show ?thesis using False 1
    by (simp add: run_post_gen_hooks_def bind_def ret_def logger_info_def emit_def commands_append)
qed


lemma fforge_hooks_effect:
  assumes "activate_command s = Some a" "starts w"
  shows "\<exists>s'. fforge_run_post_gen_hooks w f s = (Inr (), s')
     \<and> commands (trace s') = commands (trace s) @
         (if post_gen_hooks f = [] then []
          else map (\<lambda>hook. (ArgStr (hook_command a hook), Some (project_path f)))
                 (split CHR '','' (post_gen_hooks f)))"
proof (cases "post_gen_hooks f = []")
  case True
  then show ?thesis by (simp add: fforge_run_post_gen_hooks_def ret_def)
next
  case False
  from for_each_effect[where body="fforge_run_hook w f" and a=a and s=s
      and g="\<lambda>hook. (ArgStr (hook_command a hook), Some (project_path f))",
      OF fforge_run_hook_effect[OF _ assms(2)] assms(1)]
  obtain s1 where 1: "for_each (split CHR '','' (post_gen_hooks f)) (fforge_run_hook w f) s = (Inr (), s1)"
    "commands (trace s1) = commands (trace s) @
       map (\<lambda>hook. (ArgStr (hook_command a hook), Some (project_path f))) (split CHR '','' (post_gen_hooks f))"
    by blast
  show ?thesis using False 1
    by (simp add: fforge_run_post_gen_hooks_def bind_def ret_def logger_info_def emit_def commands_append)
qed

lemma shop_forge_built:
  "FlaskForge_init calm_world (config_of (shop_args\<lparr>arg_post_gen_hooks := h\<rparr>)) = Inr (shop_forge h)"
  by (simp add: FlaskForge_init_def config_of_def shop_args_def shop_forge_def calm_world_def
      choose_venv_dir_def os_path_join_def posixpath_join_def join2_def Let_def setup_logging_def
      log_levels_def)

lemma starts_hook_world: "starts hook_world"
  by (simp add: starts_def hook_world_def)

lemma trims_strip: "trims (strip s) s"
proof -
  let ?d = "dropWhile is_space s"
  let ?t = "rev (dropWhile is_space (rev ?d))"
  let ?r = "rev (takeWhile is_space (rev ?d))"
  have d: "?d = ?t @ ?r"
    by (metis rev_append rev_rev_ident takeWhile_dropWhile_id)
  have s: "s = takeWhile is_space s @ ?t @ ?r"
    using d by (metis takeWhile_dropWhile_id)
  have l: "list_all is_space (takeWhile is_space s)"
    by (auto simp: list_all_iff dest: set_takeWhileD)
  have r: "list_all is_space ?r"
    by (auto simp: list_all_iff dest: set_takeWhileD)
  have e: "\<not> is_space (hd ?t) \<and> \<not> is_space (last ?t)" if ne: "?t \<noteq> []"
  proof
    have "?d \<noteq> []"
    proof
      assume z: "?d = []"
      have "?t = []" unfolding z by simp
      with ne show False by contradiction
    qed
    then have "\<not> is_space (hd ?d)" by (rule hd_dropWhile)
    moreover have "hd ?d = hd ?t" using d ne by (metis hd_append2)
    ultimately show "\<not> is_space (hd ?t)" by simp
    have "dropWhile is_space (rev ?d) \<noteq> []" using ne by simp
    then have "\<not> is_space (hd (dropWhile is_space (rev ?d)))" by (rule hd_dropWhile)
    then show "\<not> is_space (last ?t)" using ne by (simp add: last_rev)
  qed
  show ?thesis unfolding trims_def strip_def
    using s l r e by blast
qed

lemma trims_unique:
  assumes "trims t s"
  shows "t = strip s"
proof -
  from assms obtain l r where s: "s = l @ t @ r" and l: "list_all is_space l"
    and r: "list_all is_space r" and t: "t = [] \<or> (\<not> is_space (hd t) \<and> \<not> is_space (last t))"
    unfolding trims_def by blast
  have 1: "dropWhile is_space s = dropWhile is_space (t @ r)"
    unfolding s using l by (simp add: list_all_iff dropWhile_append2)
  show ?thesis
  proof (cases "t = []")
    case True
    have z: "dropWhile is_space s = []" using 1 True r by (simp add: list_all_iff)
    show ?thesis unfolding strip_def True z by simp
  next
    case False
    then have h: "\<not> is_space (hd t)" "\<not> is_space (last t)" using t by auto
    have "dropWhile is_space (t @ r) = t @ r"
      using False h(1) by (simp add: dropWhile_eq_self_iff)
    then have 2: "dropWhile is_space s = t @ r" using 1 by simp
    have "dropWhile is_space (rev r @ rev t) = dropWhile is_space (rev t)"
      using r by (intro dropWhile_append2) (simp add: list_all_iff)
    also have "\<dots> = rev t"
      using False h(2) by (simp add: dropWhile_eq_self_iff hd_rev)
    finally show ?thesis using 2 by (simp add: strip_def)
  qed
qed

lemma trims_all:
  assumes "length ts = length segs" and "\<forall>i<length ts. trims (ts ! i) (segs ! i)"
  shows "ts = map strip segs"
proof (rule nth_equalityI)
  show "length ts = length (map strip segs)" using assms(1) by simp
  show "ts ! i = map strip segs ! i" if "i < length ts" for i
    using that assms trims_unique[of "ts ! i" "segs ! i"] by simp
qed

text \<open>
  Claim C7. Whatever the hook string, when the activation is set and child processes can be
  started, the hook stage runs one shell line per comma-separated segment, one at a time in
  the declared order, each the activation, \<^verbatim>\<open> && \<close> and the segment without its leading and
  trailing white space, run in the project directory; this holds for every exit status of
  every hook, so a hook that exits non-zero keeps no later hook from running, and the stage
  itself never raises. The hook stage of the older variant runs the same commands.
\<close>

theorem hooks_all_invoked_in_order:
  assumes "activate_command s = Some a" and "starts w"
  shows "\<exists>ts. length ts = length (split CHR '','' (post_gen_hooks f))
       \<and> (\<forall>i<length ts. trims (ts ! i) (split CHR '','' (post_gen_hooks f) ! i))
       \<and> fst (run_post_gen_hooks w f s) = Inr ()
       \<and> commands (trace (snd (run_post_gen_hooks w f s)))
           = commands (trace s) @
               (if post_gen_hooks f = [] then []
                else map (\<lambda>t. (ArgStr (a @ '' && '' @ t), Some (project_path f))) ts)
       \<and> fst (fforge_run_post_gen_hooks w f s) = Inr ()
       \<and> commands (trace (snd (fforge_run_post_gen_hooks w f s)))
           = commands (trace s) @
               (if post_gen_hooks f = [] then []
                else map (\<lambda>t. (ArgStr (a @ '' && '' @ t), Some (project_path f))) ts)"
  using hooks_effect[OF assms, of f] fforge_hooks_effect[OF assms, of f]
  by (intro exI[of _ "map strip (split CHR '','' (post_gen_hooks f))"])
     (auto simp: hook_command_def trims_strip comp_def)

text \<open>
  Witness: \<^verbatim>\<open>echo a, false ,echo b\<close> where \<^verbatim>\<open>false\<close> exits with status 1. All three run,
  in order and trimmed, and the failure of the second is logged.
\<close>

theorem hooks_all_invoked_in_order_witness:
  "commands (trace (snd (run_post_gen_hooks hook_world (shop_forge ''echo a, false ,echo b'') activated))) =
     [(ArgStr ''source /home/dev/shop/.fforge/bin/activate && echo a'', Some ''/home/dev/shop''),
      (ArgStr ''source /home/dev/shop/.fforge/bin/activate && false'', Some ''/home/dev/shop''),
      (ArgStr ''source /home/dev/shop/.fforge/bin/activate && echo b'', Some ''/home/dev/shop'')]
   \<and> fst (run_post_gen_hooks hook_world (shop_forge ''echo a, false ,echo b'') activated) = Inr ()
   \<and> errors_logged (trace (snd (run_post_gen_hooks hook_world (shop_forge ''echo a, false ,echo b'') activated)))
       = [(''Error running post-generation hook '' @ [CHR 0x27] @ '' false '' @ [CHR 0x27] @ '': '', CalledProcessError)]"
proof -
  let ?f = "shop_forge ''echo a, false ,echo b''"
  have a: "activate_command activated = Some ''source /home/dev/shop/.fforge/bin/activate''"
    by (simp add: activated_def)
  have e: "errors_logged (trace (snd (run_post_gen_hooks hook_world ?f activated)))
       = [(''Error running post-generation hook '' @ [CHR 0x27] @ '' false '' @ [CHR 0x27] @ '': '', CalledProcessError)]"
    by (simp add: run_post_gen_hooks_def shop_forge_def for_each_def run_hook_def try_except_def
        bind_def ret_def get_activate_command_def subprocess_run_def hook_world_def calm_world_def
        hook_command_def strip_def is_space_def activated_def logger_error_def logger_info_def emit_def Let_def)
  have sp: "split CHR '','' (post_gen_hooks ?f) = [''echo a'', '' false '', ''echo b'']"
    by (simp add: shop_forge_def)
  from hooks_all_invoked_in_order [OF a starts_hook_world, of ?f]
  obtain ts where ts: "length ts = length (split CHR '','' (post_gen_hooks ?f))"
    "\<forall>i<length ts. trims (ts ! i) (split CHR '','' (post_gen_hooks ?f) ! i)"
    "fst (run_post_gen_hooks hook_world ?f activated) = Inr ()"
    "commands (trace (snd (run_post_gen_hooks hook_world ?f activated)))
       = commands (trace activated) @
           (if post_gen_hooks ?f = [] then []
            else map (\<lambda>t. (ArgStr (''source /home/dev/shop/.fforge/bin/activate'' @ '' && '' @ t),
                           Some (project_path ?f))) ts)"
    by blast
  have "ts = map strip [''echo a'', '' false '', ''echo b'']"
    using trims_all[OF ts(1,2)] sp by simp
  then have "ts = [''echo a'', ''false'', ''echo b'']"
    by (simp add: strip_def is_space_def)
  then show ?thesis using ts(3,4) e by (simp add: shop_forge_def activated_def)
qed

text \<open>
  Claim C10. For a non-empty hook string the number of commands run equals the number of
  comma-separated segments, blank ones included, which is one more than the number of
  commas; blank segments are not skipped, and a string that ends in a comma makes the last
  command the activation followed by \<^verbatim>\<open> && \<close> and nothing else. Both variants agree.
\<close>

theorem hook_count_is_segment_count:
  assumes "activate_command s = Some a" and "starts w" and "post_gen_hooks f \<noteq> []"
  shows "\<exists>cs cs'. commands (trace (snd (run_post_gen_hooks w f s))) = commands (trace s) @ cs
       \<and> commands (trace (snd (fforge_run_post_gen_hooks w f s))) = commands (trace s) @ cs'
       \<and> cs' = cs
       \<and> length cs = length (split CHR '','' (post_gen_hooks f))
       \<and> length cs = Suc (count_list (post_gen_hooks f) CHR '','')
       \<and> (\<forall>h. post_gen_hooks f = h @ '','' \<longrightarrow> last cs = (ArgStr (a @ '' && ''), Some (project_path f)))"
proof -
  let ?cs = "map (\<lambda>hook. (ArgStr (hook_command a hook), Some (project_path f)))
                 (split CHR '','' (post_gen_hooks f))"
  have 1: "commands (trace (snd (run_post_gen_hooks w f s))) = commands (trace s) @ ?cs"
    using hooks_effect[OF assms(1,2), of f] assms(3) by auto
  have 2: "commands (trace (snd (fforge_run_post_gen_hooks w f s))) = commands (trace s) @ ?cs"
    using fforge_hooks_effect[OF assms(1,2), of f] assms(3) by auto
  have 3: "length ?cs = Suc (count_list (post_gen_hooks f) CHR '','')"
    by (simp add: length_split)
  have 4: "last ?cs = (ArgStr (a @ '' && ''), Some (project_path f))" if "post_gen_hooks f = h @ '',''" for h
    using that split_snoc[of "CHR '',''" h] by (simp add: hook_command_def strip_def)
  show ?thesis using 1 2 3 4 by (intro exI[of _ ?cs]) simp
qed

text \<open>Witness: \<^verbatim>\<open>echo a,\<close> runs two commands, the second one empty after the separator.\<close>

theorem hook_count_is_segment_count_witness:
  "commands (trace (snd (run_post_gen_hooks calm_world (shop_forge ''echo a,'') activated))) =
     [(ArgStr ''source /home/dev/shop/.fforge/bin/activate && echo a'', Some ''/home/dev/shop''),
      (ArgStr ''source /home/dev/shop/.fforge/bin/activate && '', Some ''/home/dev/shop'')]"
proof -
  have a: "activate_command activated = Some ''source /home/dev/shop/.fforge/bin/activate''"
    by (simp add: activated_def)
  have s: "starts calm_world" by (simp add: starts_def calm_world_def)
  have n: "post_gen_hooks (shop_forge ''echo a,'') \<noteq> []" by (simp add: shop_forge_def)
  have e: "commands (trace (snd (run_post_gen_hooks calm_world (shop_forge ''echo a,'') activated))) =
     [(ArgStr ''source /home/dev/shop/.fforge/bin/activate && echo a'', Some ''/home/dev/shop''),
      (ArgStr ''source /home/dev/shop/.fforge/bin/activate && '', Some ''/home/dev/shop'')]"
    by (simp add: run_post_gen_hooks_def shop_forge_def for_each_def run_hook_def try_except_def
        bind_def ret_def get_activate_command_def subprocess_run_def calm_world_def
        hook_command_def strip_def is_space_def activated_def logger_error_def logger_info_def emit_def Let_def)
  from hook_count_is_segment_count [OF a s n] e show ?thesis by simp
qed

section \<open>When the environment cannot be created\<close>

lemma steady_unset: "steady unset"
  by (simp add: steady_def unset_def)

lemma unset_emit: "inv unset (emit ev)"
  by (simp add: inv_def emit_def unset_def)

lemma unset_logger_info: "inv unset (logger_info m)"
  by (simp add: logger_info_def unset_emit)

lemma unset_logger_error: "inv unset (logger_error m e)"
  by (simp add: logger_error_def unset_emit)

lemma unset_os_makedirs: "inv unset (os_makedirs w p)"
  by (simp add: inv_def os_makedirs_def unset_def Let_def)

lemma unset_write_file: "inv unset (write_file w p t)"
  by (simp add: inv_def write_file_def bind_def open_w_def f_write_def unset_def Let_def)

lemma unset_subprocess_run: "inv unset (subprocess_run w a sh ck cwd)"
  by (simp add: inv_def subprocess_run_def unset_def Let_def split: proc_result.splits)

lemma unset_get: "inv unset get_activate_command"
  by (simp add: inv_def get_activate_command_def unset_def split: option.splits)

lemmas unset_intros = inv_ret inv_bind inv_seq inv_for_each inv_try_except unset_logger_info
  unset_logger_error unset_os_makedirs unset_write_file unset_subprocess_run unset_get

lemma unset_create_directories: "inv unset (create_directories w f)"
  unfolding create_directories_def by (auto intro!: unset_intros)

lemma unset_install_dependencies: "inv unset (install_dependencies w f)"
  unfolding install_dependencies_def by (auto intro!: unset_intros)

lemma unset_render_file: "inv unset (render_file w f root file)"
  by (auto simp: inv_def render_file_def Let_def bind_def os_makedirs_def open_r_def open_w_def
      f_read_def f_write_def unset_def ret_def split: sum.splits)

lemma unset_create_base_files: "inv unset (create_base_files w f)"
  unfolding create_base_files_def by (auto intro!: unset_intros unset_render_file)

lemma unset_create_blueprints: "inv unset (create_blueprints w f)"
  unfolding create_blueprints_def create_blueprint_def create_blueprint_files_def Let_def
  by (auto intro!: unset_intros)

lemma unset_create_init_py: "inv unset (create_init_py w f)"
  unfolding create_init_py_def by (auto intro!: unset_intros)

lemma unset_create_models_py: "inv unset (create_models_py w f)"
  unfolding create_models_py_def by (auto intro!: unset_intros)

lemma unset_create_docker_files: "inv unset (create_docker_files w f)"
  unfolding create_docker_files_def by (auto intro!: unset_intros)

lemma unset_create_ci_cd_files: "inv unset (create_ci_cd_files w f)"
  unfolding create_ci_cd_files_def Let_def by (auto intro!: unset_intros)

lemma unset_initialize_database: "inv unset (initialize_database w f)"
  unfolding initialize_database_def flask_db_def by (auto intro!: unset_intros)

lemma unset_run_post_gen_hooks: "inv unset (run_post_gen_hooks w f)"
  unfolding run_post_gen_hooks_def run_hook_def by (auto intro!: unset_intros)

lemma unset_create_virtualenv:
  assumes "\<forall>h. popen w h (ArgList [''python'', ''-m'', ''venv'', venv_dir f]) False None = Exited rc"
    and "rc \<noteq> 0"
  shows "inv unset (create_virtualenv w f)"
  using assms
  by (simp add: inv_def create_virtualenv_def try_except_def bind_def subprocess_run_def Let_def
      logger_error_def emit_def unset_def)

lemma initialize_database_unset_raises:
  "unset s \<Longrightarrow> fst (initialize_database w f s) = Inl AttributeError"
  by (simp add: initialize_database_def flask_db_def try_except_def bind_def
      get_activate_command_def unset_def)

lemma install_dependencies_unset_raises:
  "unset s \<Longrightarrow> dependencies f \<noteq> [] \<Longrightarrow> fst (install_dependencies w f s) = Inl AttributeError"
  by (simp add: install_dependencies_def try_except_def bind_def get_activate_command_def unset_def)

lemma create_virtualenv_fails_returns:
  assumes "\<forall>h. popen w h (ArgList [''python'', ''-m'', ''venv'', venv_dir f]) False None = Exited rc"
    and "rc \<noteq> 0"
  shows "fst (create_virtualenv w f s) = Inr ()"
  using assms
  by (simp add: create_virtualenv_def try_except_def bind_def subprocess_run_def Let_def
      logger_error_def emit_def)


lemma list_all_stages_unset:
  assumes "\<forall>h. popen w h (ArgList [''python'', ''-m'', ''venv'', venv_dir f]) False None = Exited rc"
    and "rc \<noteq> 0"
  shows "list_all (\<lambda>p. quiet (snd p) \<and> inv unset (snd p)) (stages w f)"
  using unset_create_virtualenv[OF assms]
  by (simp add: stages_def quiet_create_directories quiet_create_virtualenv quiet_install_dependencies
      quiet_create_base_files quiet_create_blueprints quiet_create_init_py quiet_create_models_py
      quiet_create_docker_files quiet_create_ci_cd_files quiet_initialize_database
      quiet_run_post_gen_hooks unset_create_directories unset_install_dependencies
      unset_create_base_files unset_create_blueprints unset_create_init_py unset_create_models_py
      unset_create_docker_files unset_create_ci_cd_files unset_initialize_database
      unset_run_post_gen_hooks)

lemma venv_failure_blocks:
  assumes "\<forall>h. popen w h (ArgList [''python'', ''-m'', ''venv'', venv_dir f]) False None = Exited rc"
    and "rc \<noteq> 0"
  shows "(\<exists>e. fst (run w f (start fs)) = Inl e)
       \<and> Run_post_gen_hooks \<notin> set (entered (trace (snd (run w f (start fs)))))"
proof -
  have u: "unset (start fs)" by (simp add: unset_def start_def)
  have i: "9 < length (stages w f)" by (simp add: stages_def)
  have r: "\<forall>si. unset si \<longrightarrow> (\<exists>e. fst (snd (stages w f ! 9) si) = Inl e)"
    by (simp add: stages_def initialize_database_unset_raises)
  from pipeline_blocked[OF list_all_stages_unset[OF assms] steady_unset u i r]
  obtain e k where 1: "fst (pipeline (stages w f) (start fs)) = Inl e" "k \<le> 10"
    "entered (trace (snd (pipeline (stages w f) (start fs)))) = take k all_stages"
    by (auto simp: map_fst_stages start_def)
  have 2: "run w f (start fs) = (Inl e, snd (pipeline (stages w f) (start fs)))"
    unfolding run_def using 1(1) by (rule bind_Inl)
  have "set (take k all_stages) \<subseteq> set (take 10 all_stages)"
    using 1(2) by (rule set_take_subset_set_take)
  then have "Run_post_gen_hooks \<notin> set (take k all_stages)"
    by (auto simp: all_stages_def)
  then show ?thesis using 1(3) 2 by simp
qed

lemma venv_failure_then_install:
  assumes "\<forall>h. popen w h (ArgList [''python'', ''-m'', ''venv'', venv_dir f]) False None = Exited rc"
    and "rc \<noteq> 0" and "dependencies f \<noteq> []"
  shows "fst (run w f (start fs)) = Inl AttributeError
       \<and> entered (trace (snd (run w f (start fs)))) = [Create_directories, Create_virtualenv, Install_dependencies]"
proof -
  let ?cd = "call Create_directories (create_directories w f)"
  let ?cv = "call Create_virtualenv (create_virtualenv w f)"
  let ?id = "call Install_dependencies (install_dependencies w f)"
  let ?s0 = "start fs"
  let ?s1 = "snd (?cd ?s0)"
  let ?s2 = "snd (?cv ?s1)"
  let ?s3 = "snd (?id ?s2)"
  have u0: "unset ?s0" by (simp add: unset_def start_def)
  have e0: "entered (trace ?s0) = []" by (simp add: start_def)
  note c1 = call_effect[OF quiet_create_directories unset_create_directories steady_unset u0,
      where st=Create_directories]
  have r1: "fst (?cd ?s0) = Inr ()" by (simp add: call_eq create_directories_returns)
  have u1: "unset ?s1" using c1 by simp
  note c2 = call_effect[OF quiet_create_virtualenv unset_create_virtualenv[OF assms(1,2)] steady_unset u1,
      where st=Create_virtualenv]
  have r2: "fst (?cv ?s1) = Inr ()" by (simp add: call_eq create_virtualenv_fails_returns[OF assms(1,2)])
  have u2: "unset ?s2" using c2 by simp
  note c3 = call_effect[OF quiet_install_dependencies unset_install_dependencies steady_unset u2,
      where st=Install_dependencies]
  have "unset (?s2\<lparr>trace := trace ?s2 @ [Enter Install_dependencies]\<rparr>)"
    using u2 steady_unset by (simp add: steady_def)
  then have r3: "fst (?id ?s2) = Inl AttributeError"
    by (simp add: call_eq install_dependencies_unset_raises[OF _ assms(3)])
  have p: "pipeline (stages w f) ?s0 = (Inl AttributeError, ?s3)"
    by (simp add: stages_def pipeline_Cons
        bind_Inr[where m="?cd" and s="?s0", OF r1] bind_Inr[where m="?cv" and s="?s1", OF r2]
        bind_Inl[where m="?id" and s="?s2", OF r3])
  have "entered (trace ?s3) = [Create_directories, Create_virtualenv, Install_dependencies]"
    using c1 c2 c3 e0 by simp
  then show ?thesis using p by (simp add: run_def bind_def)
qed


lemma crash_forge_built: "FlaskForge_init venv_fails_world (config_of crash_args) = Inr crash_forge"
  by (simp add: FlaskForge_init_def config_of_def crash_args_def shop_args_def crash_forge_def
      shop_forge_def venv_fails_world_def calm_world_def choose_venv_dir_def os_path_join_def posixpath_join_def
      join2_def Let_def setup_logging_def log_levels_def default_dependencies_def)

text \<open>
  Claim C1, at its failing input. The claim says that a failed environment creation is
  caught and logged, that the later stages are still attempted and that the process exits
  with status 0. The guard of \<^verbatim>\<open>create_virtualenv\<close> does catch the failure, but the
  attribute \<^verbatim>\<open>activate_command\<close> is then never assigned, and reading it raises an
  \<^verbatim>\<open>AttributeError\<close> that no guard catches. So whenever \<^verbatim>\<open>python -m venv\<close> exits with a
  non-zero status the run ends with an exception, the hook stage is never entered and the
  process exits with status 1; with a non-empty dependency list the exception is the
  \<^verbatim>\<open>AttributeError\<close> of the dependency installation, the third stage, and no later
  stage is entered.
\<close>

theorem venv_failure_aborts_run:
  assumes "\<forall>h. popen w h (ArgList [''python'', ''-m'', ''venv'', venv_dir f]) False None = Exited rc"
    and "rc \<noteq> 0"
  shows "(\<exists>e. fst (run w f (start fs)) = Inl e)
       \<and> Run_post_gen_hooks \<notin> set (entered (trace (snd (run w f (start fs)))))
       \<and> (dependencies f \<noteq> [] \<longrightarrow>
            fst (run w f (start fs)) = Inl AttributeError
          \<and> entered (trace (snd (run w f (start fs))))
              = [Create_directories, Create_virtualenv, Install_dependencies])
       \<and> (FlaskForge_init w (config_of a) = Inr f \<longrightarrow> fst (main w a fs) = 1)"
proof -
  note b = venv_failure_blocks[OF assms, of fs]
  from b obtain e where e: "fst (run w f (start fs)) = Inl e" by blast
  have "fst (main w a fs) = 1" if "FlaskForge_init w (config_of a) = Inr f"
    using that e by (cases "run w f (start fs)") (simp add: main_def)
  then show ?thesis using b venv_failure_then_install[OF assms, of fs] by blast
qed

text \<open>Witness: the default dependencies, \<^verbatim>\<open>python -m venv\<close> exits with status 1.\<close>

theorem venv_failure_aborts_run_witness:
  "fst (main venv_fails_world crash_args Map.empty) = 1
   \<and> fst (run venv_fails_world crash_forge (start Map.empty)) = Inl AttributeError
   \<and> entered (trace (snd (run venv_fails_world crash_forge (start Map.empty))))
       = [Create_directories, Create_virtualenv, Install_dependencies]"
proof -
  have p: "\<forall>h. popen venv_fails_world h (ArgList [''python'', ''-m'', ''venv'', venv_dir crash_forge]) False None
             = Exited 1"
    by (simp add: venv_fails_world_def crash_forge_def shop_forge_def)
  have d: "dependencies crash_forge \<noteq> []"
    by (simp add: crash_forge_def split_nonempty)
  from venv_failure_aborts_run [OF p, of Map.empty crash_args] crash_forge_built d
  show ?thesis by simp
qed

section \<open>The order of the stages\<close>

lemma doesD:
  "does A m cs A' \<Longrightarrow> activate_command s = A \<Longrightarrow>
     fst (m s) = Inr () \<and> activate_command (snd (m s)) = A'
      \<and> commands (trace (snd (m s))) = commands (trace s) @ cs"
  by (simp add: does_def)

lemma does_ret: "does A (ret ()) [] A"
  by (simp add: does_def ret_def)

lemma does_bind:
  assumes "does A m cs A'" "does A' (k ()) cs' A''"
  shows "does A (bind m k) (cs @ cs') A''"
  unfolding does_def
proof (intro allI impI)
  fix s :: state assume a: "activate_command s = A"
  note 1 = doesD[OF assms(1) a]
  note 2 = doesD[OF assms(2), of "snd (m s)"]
  have "bind m k s = k () (snd (m s))" using 1 by (simp add: bind_Inr)
  then show "fst (bind m k s) = Inr () \<and> activate_command (snd (bind m k s)) = A''
      \<and> commands (trace (snd (bind m k s))) = commands (trace s) @ cs @ cs'"
    using 1 2 by simp
qed

lemma does_bind_still: "does A m [] A \<Longrightarrow> does A (k ()) [] A \<Longrightarrow> does A (bind m k) [] A"
  using does_bind[of A m "[]" A k "[]" A] by simp

lemma does_seq_Cons:
  "does A m cs A' \<Longrightarrow> does A' (seq ms) cs' A'' \<Longrightarrow> does A (seq (m # ms)) (cs @ cs') A''"
  by (simp add: does_bind)

lemma does_seq_still: "(\<And>m. m \<in> set ms \<Longrightarrow> does A m [] A) \<Longrightarrow> does A (seq ms) [] A"
proof (induction ms)
  case Nil
  then show ?case by (simp add: does_ret)
next
  case (Cons m ms)
  then show ?case using does_seq_Cons[of A m "[]" A ms "[]" A] by simp
qed

lemma does_for_each_still: "(\<And>x. does A (body x) [] A) \<Longrightarrow> does A (for_each xs body) [] A"
  unfolding for_each_def by (rule does_seq_still) auto

lemma does_try_except: "does A m cs A' \<Longrightarrow> does A (try_except m c h) cs A'"
  unfolding does_def try_except_def
  by (auto split: prod.splits sum.splits)

lemma does_emit: "\<forall>a sh cwd. ev \<noteq> Popen a sh cwd \<Longrightarrow> does A (emit ev) [] A"
  by (cases ev) (auto simp: does_def emit_def commands_append)

lemma does_logger_info: "does A (logger_info m) [] A"
  unfolding logger_info_def by (rule does_emit) simp

lemma does_os_makedirs: "permissive w \<Longrightarrow> does A (os_makedirs w p) [] A"
  by (simp add: does_def os_makedirs_def permissive_def Let_def commands_append)

lemma does_write_file: "permissive w \<Longrightarrow> does A (write_file w p t) [] A"
  by (simp add: does_def write_file_def bind_def open_w_def f_write_def permissive_def Let_def
      commands_append)




lemmas does_still_intros = does_ret does_bind_still does_seq_still does_for_each_still does_try_except
  does_logger_info does_os_makedirs does_write_file



lemma does_create_blueprints: "permissive w \<Longrightarrow> does A (create_blueprints w f) [] A"
  unfolding create_blueprints_def create_blueprint_def create_blueprint_files_def Let_def
  by (auto intro!: does_still_intros)















lemma permissive_calm: "permissive calm_world"
  by (simp add: permissive_def calm_world_def)






section \<open>What the blueprint stage writes\<close>

lemma acts_create_blueprint_files:
  "acts (create_blueprint_files w bp d)
     (map (\<lambda>(p, t). OpenW p)
        [(os_path_join w d [''routes.py''], routes_py bp), (os_path_join w d [''__init__.py''], init_py bp),
         (os_path_join w d [''forms.py''], forms_py),
         (os_path_join w d [''templates'', bp @ ''_home.html''], home_html w bp)])
     (write_all
        [(os_path_join w d [''routes.py''], routes_py bp), (os_path_join w d [''__init__.py''], init_py bp),
         (os_path_join w d [''forms.py''], forms_py),
         (os_path_join w d [''templates'', bp @ ''_home.html''], home_html w bp)])"
proof -
  note a = acts_seq_Cons[OF acts_write_file acts_seq_Cons[OF acts_write_file
      acts_seq_Cons[OF acts_write_file acts_seq_Cons[OF acts_write_file acts_seq_Nil]]]]
  have e: "write_all
        [(os_path_join w d [''routes.py''], routes_py bp), (os_path_join w d [''__init__.py''], init_py bp),
         (os_path_join w d [''forms.py''], forms_py),
         (os_path_join w d [''templates'', bp @ ''_home.html''], home_html w bp)]
      = (\<lambda>m. m(os_path_join w d [''routes.py''] \<mapsto> routes_py bp,
               os_path_join w d [''__init__.py''] \<mapsto> init_py bp,
               os_path_join w d [''forms.py''] \<mapsto> forms_py,
               os_path_join w d [''templates'', bp @ ''_home.html''] \<mapsto> home_html w bp))"
    by (rule ext) (simp add: write_all_def)
  show ?thesis unfolding create_blueprint_files_def e
    using a[of w "os_path_join w d [''routes.py'']" "routes_py bp" w "os_path_join w d [''__init__.py'']" "init_py bp"
        w "os_path_join w d [''forms.py'']" forms_py w "os_path_join w d [''templates'', bp @ ''_home.html'']" "home_html w bp"]
    by simp
qed

lemma acts_create_blueprint:
  "acts (create_blueprint w f entry)
     (if strip entry = [] then [] else blueprint_events w f (strip entry))
     (if strip entry = [] then (\<lambda>m. m) else write_all (blueprint_files w f (strip entry)))"
proof (cases "strip entry = []")
  case True
  then show ?thesis by (simp add: create_blueprint_def acts_ret)
next
  case False
  let ?d = "bp_dir w f (strip entry)"
  note a = acts_seq_Cons[OF acts_os_makedirs[of w ?d]
      acts_seq_Cons[OF acts_os_makedirs[of w "os_path_join w ?d [''templates'']"]
      acts_seq_Cons[OF acts_os_makedirs[of w "os_path_join w ?d [''static'']"]
      acts_seq_Cons[OF acts_create_blueprint_files[of w "strip entry" ?d] acts_seq_Nil]]]]
  show ?thesis using False a
    by (simp add: create_blueprint_def Let_def blueprint_events_def blueprint_dirs_def
        blueprint_files_def bp_dir_def)
qed

lemma concat_blueprint_events:
  "concat (map (\<lambda>entry. if strip entry = [] then [] else blueprint_events w f (strip entry)) es)
     = concat (map (blueprint_events w f) (filter (\<lambda>bp. bp \<noteq> []) (map strip es)))"
  by (induction es) auto

lemma write_all_append: "write_all (xs @ ys) m = write_all ys (write_all xs m)"
  by (simp add: write_all_def)

lemma fold_blueprint_files:
  "fold (\<lambda>entry. if strip entry = [] then (\<lambda>m. m) else write_all (blueprint_files w f (strip entry))) es m
     = write_all (concat (map (blueprint_files w f) (filter (\<lambda>bp. bp \<noteq> []) (map strip es)))) m"
  by (induction es arbitrary: m) (auto simp: write_all_append, simp add: write_all_def)

lemma acts_create_blueprints:
  "acts (create_blueprints w f)
     (concat (map (blueprint_events w f) (blueprint_names f)) @ [Log INFO ''Blueprints created'' None])
     (write_all (concat (map (blueprint_files w f) (blueprint_names f))))"
proof -
  note a = acts_seq_Cons[OF acts_for_each[of "create_blueprint w f", OF acts_create_blueprint]
      acts_seq_Cons[OF acts_logger_info acts_seq_Nil], of "blueprints f" "''Blueprints created''"]
  have "(\<lambda>fs. fold (\<lambda>entry. if strip entry = [] then (\<lambda>m. m) else write_all (blueprint_files w f (strip entry)))
            (blueprints f) fs) = write_all (concat (map (blueprint_files w f) (blueprint_names f)))"
    by (rule ext) (simp add: fold_blueprint_files blueprint_names_def)
  then show ?thesis using a
    by (simp add: create_blueprints_def concat_blueprint_events blueprint_names_def)
qed

lemma create_blueprints_files:
  assumes "fst (create_blueprints w f s) = Inr ()"
  shows "files (snd (create_blueprints w f s))
           = write_all (concat (map (blueprint_files w f) (blueprint_names f))) (files s)"
  using actsD[OF acts_create_blueprints assms] by simp

section \<open>The heading of the child template\<close>

lemma home_html_text:
  "home_html w (c # cs) =
     ''{% extends \"base.html\" %}\<newline>{% block content %}\<newline><h1>Welcome to the '' @
     totitle w c @ concat (map (tolower w) cs) @
     '' Home Page</h1>\<newline>{% endblock %}\<newline>''"
  by (simp add: home_html_def)

lemma latin1_title_cases:
  "latin1_title CHR ''c'' = ''C''" "latin1_title CHR ''m'' = ''M''" "latin1_title CHR ''b'' = ''B''"
  "latin1_title CHR ''u'' = ''U''" "latin1_title CHR '' '' = '' ''" "latin1_title (CHR 0xE9) = [CHR 0xC9]"
  by (simp_all add: latin1_title_def lower_letters_def upper_letters_def)

lemma latin1_lower_cases:
  "latin1_lower CHR ''a'' = ''a''" "latin1_lower CHR ''r'' = ''r''" "latin1_lower CHR ''t'' = ''t''"
  "latin1_lower CHR ''y'' = ''y''" "latin1_lower CHR '' '' = '' ''" "latin1_lower CHR ''b'' = ''b''"
  "latin1_lower CHR ''l'' = ''l''" "latin1_lower CHR ''o'' = ''o''" "latin1_lower CHR ''g'' = ''g''"
  "latin1_lower CHR ''m'' = ''m''" "latin1_lower CHR ''s'' = ''s''" "latin1_lower CHR ''e'' = ''e''"
  "latin1_lower CHR ''A'' = ''a''" "latin1_lower CHR ''P'' = ''p''" "latin1_lower CHR ''I'' = ''i''"
  "latin1_lower CHR ''C'' = ''c''" "latin1_lower CHR ''O'' = ''o''" "latin1_lower CHR ''L'' = ''l''"
  "latin1_lower CHR ''E'' = ''e''"
  by (simp_all add: latin1_lower_def lower_letters_def upper_letters_def)

lemma my_blog_title: "title_case latin1_title latin1_lower ''my blog'' = ''My Blog''"
  by (simp add: title_case_def is_cased_def latin1_title_def latin1_lower_def lower_letters_def
      upper_letters_def)

lemma shop_built:
  assumes "FlaskForge_init w (config_of shop_args) = Inr f" and "platform_system w \<noteq> ''Windows''"
  shows "project_name f = ''shop'' \<and> project_path f = join2 (getcwd w) ''shop''
       \<and> blueprint_names f = [''catalog'', ''cart'']"
  using assms
  by (auto simp: FlaskForge_init_def config_of_def shop_args_def choose_venv_dir_def posix_join
      Let_def blueprint_names_def strip_def is_space_def split: if_splits)

lemma does_create_blueprint: "permissive w \<Longrightarrow> does A (create_blueprint w f entry) [] A"
  unfolding create_blueprint_def create_blueprint_files_def Let_def
  by (auto intro!: does_still_intros)

lemma create_blueprint_file:
  assumes "strip entry = c # cs" and "fst (create_blueprint w f entry s) = Inr ()"
  shows "files (snd (create_blueprint w f entry s))
        (os_path_join w (bp_dir w f (strip entry)) [''templates'', strip entry @ ''_home.html''])
      = Some (home_html w (c # cs))"
  using actsD[OF acts_create_blueprint assms(2)] assms(1)
  by (simp add: write_all_def blueprint_files_def)

text \<open>
  Claim C6, as stated, fails: the source calls \<^verbatim>\<open>capitalize\<close>, which puts the first
  character of the name in title case and all the others in lower case; it does not
  title-case the name. For the blueprint \<^verbatim>\<open>my blog\<close> the title-cased name is \<^verbatim>\<open>My Blog\<close>,
  and the file written has the heading \<^verbatim>\<open>Welcome to the My blog Home Page\<close>.
\<close>

theorem heading_title_case_counterexample:
  "fst (create_blueprints calm_world blog_forge (start Map.empty)) = Inr ()
   \<and> files (snd (create_blueprints calm_world blog_forge (start Map.empty)))
        ''/home/dev/shop/shop/my blog/templates/my blog_home.html'' =
      Some ''{% extends \"base.html\" %}\<newline>{% block content %}\<newline><h1>Welcome to the My blog Home Page</h1>\<newline>{% endblock %}\<newline>''
   \<and> title_case (totitle calm_world) (tolower calm_world) ''my blog'' = ''My Blog''
   \<and> \<not> sublist ''Welcome to the My Blog Home Page''
        ''{% extends \"base.html\" %}\<newline>{% block content %}\<newline><h1>Welcome to the My blog Home Page</h1>\<newline>{% endblock %}\<newline>''"
proof -
  have r: "fst (create_blueprints calm_world blog_forge (start Map.empty)) = Inr ()"
    using doesD[OF does_create_blueprints[OF permissive_calm, of None blog_forge], of "start Map.empty"]
    by (simp add: start_def)
  have n: "blueprint_names blog_forge = [''my blog'']"
    by (simp add: blueprint_names_def blog_forge_def shop_forge_def strip_def is_space_def)
  have h: "home_html calm_world ''my blog'' =
      ''{% extends \"base.html\" %}\<newline>{% block content %}\<newline><h1>Welcome to the My blog Home Page</h1>\<newline>{% endblock %}\<newline>''"
    unfolding home_html_text by (simp add: calm_world_def latin1_title_cases latin1_lower_cases)
  have "files (snd (create_blueprints calm_world blog_forge (start Map.empty)))
        ''/home/dev/shop/shop/my blog/templates/my blog_home.html'' = Some (home_html calm_world ''my blog'')"
    unfolding create_blueprints_files[OF r] n
    by (simp add: write_all_def blueprint_files_def bp_dir_def os_path_join_def posixpath_join_def
        join2_def blog_forge_def shop_forge_def calm_world_def)
  then have f: "files (snd (create_blueprints calm_world blog_forge (start Map.empty)))
        ''/home/dev/shop/shop/my blog/templates/my blog_home.html'' =
      Some ''{% extends \"base.html\" %}\<newline>{% block content %}\<newline><h1>Welcome to the My blog Home Page</h1>\<newline>{% endblock %}\<newline>''"
    unfolding h .
  have t: "title_case (totitle calm_world) (tolower calm_world) ''my blog'' = ''My Blog''"
    using my_blog_title by (simp add: calm_world_def)
  have ns: "\<not> sublist ''Welcome to the My Blog Home Page''
        ''{% extends \"base.html\" %}\<newline>{% block content %}\<newline><h1>Welcome to the My blog Home Page</h1>\<newline>{% endblock %}\<newline>''"
    by (simp add: sublist_Cons_right)
  show ?thesis using r f t ns by blast
qed

text \<open>
  Claim C6, amended. For every entry of the blueprint list whose trimmed name is not blank,
  the generation of that blueprint, when it returns normally, leaves in the \<^verbatim>\<open>templates\<close>
  directory of the blueprint the file \<^verbatim>\<open><name>_home.html\<close>, which extends \<^verbatim>\<open>base.html\<close>
  and whose heading is \<^verbatim>\<open>Welcome to the <Name> Home Page\<close>, where \<^verbatim>\<open><Name>\<close> is the name
  capitalised: its first character in title case, every other character in lower case.
  On a host other than Windows, with the case mappings of Unicode below 256, the project
  \<^verbatim>\<open>shop\<close> with the blueprints \<^verbatim>\<open>catalog,cart\<close> gets the file
  \<^verbatim>\<open>shop/shop/cart/templates/cart_home.html\<close> under the working directory, with the heading
  \<^verbatim>\<open>Welcome to the Cart Home Page\<close>.
\<close>

theorem heading_capitalizes_name:
  "(strip entry = c # cs \<and> fst (create_blueprint w f entry s) = Inr () \<longrightarrow>
      files (snd (create_blueprint w f entry s))
        (os_path_join w (os_path_join w (project_path f) [project_name f, c # cs])
           [''templates'', (c # cs) @ ''_home.html''])
      = Some (''{% extends \"base.html\" %}\<newline>{% block content %}\<newline><h1>Welcome to the '' @
              totitle w c @ concat (map (tolower w) cs) @
              '' Home Page</h1>\<newline>{% endblock %}\<newline>''))
   \<and> (FlaskForge_init w (config_of shop_args) = Inr f \<and> fst (create_blueprints w f s) = Inr ()
        \<and> platform_system w \<noteq> ''Windows'' \<and> totitle w = latin1_title \<and> tolower w = latin1_lower \<longrightarrow>
        files (snd (create_blueprints w f s))
          (posixpath_join (getcwd w) [''shop'', ''shop'', ''cart'', ''templates'', ''cart_home.html''])
        = Some ''{% extends \"base.html\" %}\<newline>{% block content %}\<newline><h1>Welcome to the Cart Home Page</h1>\<newline>{% endblock %}\<newline>'')"
proof -
  have 1: "files (snd (create_blueprint w f entry s))
        (os_path_join w (os_path_join w (project_path f) [project_name f, c # cs])
           [''templates'', (c # cs) @ ''_home.html''])
      = Some (''{% extends \"base.html\" %}\<newline>{% block content %}\<newline><h1>Welcome to the '' @
              totitle w c @ concat (map (tolower w) cs) @
              '' Home Page</h1>\<newline>{% endblock %}\<newline>'')"
    if "strip entry = c # cs" "fst (create_blueprint w f entry s) = Inr ()"
    using create_blueprint_file[OF that] that(1) unfolding home_html_text by (simp add: bp_dir_def)
  have 2: "files (snd (create_blueprints w f s))
          (posixpath_join (getcwd w) [''shop'', ''shop'', ''cart'', ''templates'', ''cart_home.html''])
        = Some ''{% extends \"base.html\" %}\<newline>{% block content %}\<newline><h1>Welcome to the Cart Home Page</h1>\<newline>{% endblock %}\<newline>''"
    if a: "FlaskForge_init w (config_of shop_args) = Inr f" "fst (create_blueprints w f s) = Inr ()"
      "platform_system w \<noteq> ''Windows''" "totitle w = latin1_title" "tolower w = latin1_lower"
  proof -
    have h: "home_html w ''cart'' =
        ''{% extends \"base.html\" %}\<newline>{% block content %}\<newline><h1>Welcome to the Cart Home Page</h1>\<newline>{% endblock %}\<newline>''"
      unfolding home_html_text by (simp add: a(4,5) latin1_title_cases latin1_lower_cases)
    have "files (snd (create_blueprints w f s))
          (posixpath_join (getcwd w) [''shop'', ''shop'', ''cart'', ''templates'', ''cart_home.html''])
        = Some (home_html w ''cart'')"
      unfolding create_blueprints_files[OF a(2)]
      using shop_built[OF a(1,3)] a(3)
      by (simp add: write_all_def blueprint_files_def bp_dir_def os_path_join_def posixpath_join_def)
    then show ?thesis unfolding h .
  qed
  show ?thesis using 1 2 by blast
qed

text \<open>
  Witness: the project \<^verbatim>\<open>shop\<close> in \<^verbatim>\<open>/home/dev\<close>, and two names with upper-case letters after
  the first: \<^verbatim>\<open>userAPI\<close>, and \<^verbatim>\<open>COLE\<close> after a small e with acute accent (U+00E9).
\<close>

theorem heading_capitalizes_name_witness:
  "files (snd (create_blueprints calm_world (shop_forge []) (start Map.empty)))
     ''/home/dev/shop/shop/cart/templates/cart_home.html'' =
     Some ''{% extends \"base.html\" %}\<newline>{% block content %}\<newline><h1>Welcome to the Cart Home Page</h1>\<newline>{% endblock %}\<newline>''
   \<and> files (snd (create_blueprint calm_world (shop_forge []) '' userAPI '' (start Map.empty)))
     ''/home/dev/shop/shop/userAPI/templates/userAPI_home.html'' =
     Some ''{% extends \"base.html\" %}\<newline>{% block content %}\<newline><h1>Welcome to the Userapi Home Page</h1>\<newline>{% endblock %}\<newline>''
   \<and> files (snd (create_blueprint calm_world (shop_forge []) (CHR 0xE9 # ''COLE'') (start Map.empty)))
     (''/home/dev/shop/shop/'' @ CHR 0xE9 # ''COLE/templates/'' @ CHR 0xE9 # ''COLE_home.html'') =
     Some (''{% extends \"base.html\" %}\<newline>{% block content %}\<newline><h1>Welcome to the '' @
           CHR 0xC9 # ''cole Home Page</h1>\<newline>{% endblock %}\<newline>'')"
proof -
  let ?f = "shop_forge []"
  have r: "fst (create_blueprints calm_world ?f (start Map.empty)) = Inr ()"
    using doesD[OF does_create_blueprints[OF permissive_calm, of None ?f], of "start Map.empty"]
    by (simp add: start_def)
  have r1: "fst (create_blueprint calm_world ?f entry (start Map.empty)) = Inr ()" for entry
    using doesD[OF does_create_blueprint[OF permissive_calm, of None ?f entry], of "start Map.empty"]
    by (simp add: start_def)
  have b: "FlaskForge_init calm_world (config_of shop_args) = Inr ?f"
    using shop_forge_built[of "[]"] by (simp add: shop_args_def)
  have s1: "strip '' userAPI '' = CHR ''u'' # ''serAPI''" by (simp add: strip_def is_space_def)
  have s2: "strip (CHR 0xE9 # ''COLE'') = CHR 0xE9 # ''COLE''" by (simp add: strip_def is_space_def)
  have c: "platform_system calm_world \<noteq> ''Windows''" "totitle calm_world = latin1_title"
    "tolower calm_world = latin1_lower" by (simp_all add: calm_world_def)
  from heading_capitalizes_name [where w=calm_world and f="?f" and s="start Map.empty"
      and entry="'' userAPI ''" and c="CHR ''u''" and cs="''serAPI''"] r b s1 r1 c
  have 1: "files (snd (create_blueprints calm_world ?f (start Map.empty)))
     ''/home/dev/shop/shop/cart/templates/cart_home.html'' =
     Some ''{% extends \"base.html\" %}\<newline>{% block content %}\<newline><h1>Welcome to the Cart Home Page</h1>\<newline>{% endblock %}\<newline>''"
    and 2: "files (snd (create_blueprint calm_world ?f '' userAPI '' (start Map.empty)))
     ''/home/dev/shop/shop/userAPI/templates/userAPI_home.html'' =
     Some ''{% extends \"base.html\" %}\<newline>{% block content %}\<newline><h1>Welcome to the Userapi Home Page</h1>\<newline>{% endblock %}\<newline>''"
    by (simp_all add: os_path_join_def posixpath_join_def join2_def shop_forge_def
        latin1_title_cases latin1_lower_cases calm_world_def)
  from heading_capitalizes_name [where w=calm_world and f="?f" and s="start Map.empty"
      and entry="CHR 0xE9 # ''COLE''" and c="CHR 0xE9" and cs="''COLE''"] s2 r1 c
  have 3: "files (snd (create_blueprint calm_world ?f (CHR 0xE9 # ''COLE'') (start Map.empty)))
     (''/home/dev/shop/shop/'' @ CHR 0xE9 # ''COLE/templates/'' @ CHR 0xE9 # ''COLE_home.html'') =
     Some (''{% extends \"base.html\" %}\<newline>{% block content %}\<newline><h1>Welcome to the '' @
           CHR 0xC9 # ''cole Home Page</h1>\<newline>{% endblock %}\<newline>'')"
    by (simp add: os_path_join_def posixpath_join_def join2_def shop_forge_def
        latin1_title_cases latin1_lower_cases)
  show ?thesis using 1 2 3 by blast
qed
end
